theory Spec2Isabelle
  imports Complex_Main "HOL-Library.AList"
begin

section \<open>The truss renderer \<open>draw_bridge\<close> of \<open>app.py\<close>\<close>

text \<open>
  \<open>draw_bridge\<close> reads a model document and an optional result document and builds a
  Plotly figure: a list of traces and a list of annotations, together with a
  recommended height. The embedding follows the body of the function line by line.

  Python floats are modelled as real numbers, except in the recommended height: its
  integer result shows the rounding of the float operations, so there every operation
  rounds to the nearest double. JSON documents are modelled as typed
  records: every key that the renderer subscripts (\<open>id\<close>, \<open>x\<close>, \<open>y\<close>, \<open>start\<close>, \<open>end\<close>,
  \<open>force\<close>, \<open>safety\<close>) is present and numeric, ids are integers, and every key read
  with \<open>.get\<close> is optional. The renderer is modelled at its two default arguments
  (\<open>deformation_scale\<close> is unused, \<open>visualization_scale_multiplier = 0.6\<close>), as the
  application calls it.
\<close>

subsection \<open>Documents\<close>

text \<open>
  A file is missing (no path, or \<open>os.path.exists\<close> is false), unreadable (\<open>open\<close> or
  \<open>json.load\<close> raises) or parsed to a document.
\<close>

datatype 'a json_file = Missing | Unreadable | Parsed 'a

record node =
  n_id :: int
  n_x :: real
  n_y :: real
  n_type :: "string option"
  n_loadX :: "real option"
  n_loadY :: "real option"

record element =
  e_id :: int
  e_start :: int
  e_end :: int

record bridge_data =
  bd_nodes :: "node list option"
  bd_elements :: "element list option"

record element_result =
  er_id :: int
  er_force :: real
  er_safety :: real

record node_result =
  nr_id :: int
  nr_rx :: "real option"
  nr_ry :: "real option"

record results_data =
  rd_elements :: "element_result list option"
  rd_nodes :: "node_result list option"

datatype py_error = ValueError | OverflowError

text \<open>\<open>d.get(key, [])\<close> and \<open>d.get(key, 0)\<close>.\<close>

definition get_list :: "'a list option \<Rightarrow> 'a list" where
  "get_list v = (case v of None \<Rightarrow> [] | Some xs \<Rightarrow> xs)"

definition get_num :: "real option \<Rightarrow> real" where
  "get_num v = (case v of None \<Rightarrow> 0 | Some x \<Rightarrow> x)"

text \<open>
  \<open>all_nodes = {node['id']: node for node in ...}\<close>: a dictionary keeps the position of
  the first occurrence of a key and the value of the last one.
\<close>

type_synonym node_dict = "(int \<times> node) list"

definition all_nodes_of :: "bridge_data \<Rightarrow> node_dict" where
  "all_nodes_of bd = fold (\<lambda>n d. AList.update (n_id n) n d) (get_list (bd_nodes bd)) []"

definition all_elements_of :: "bridge_data \<Rightarrow> element list" where
  "all_elements_of bd = get_list (bd_elements bd)"

definition simulation_results_of :: "results_data json_file \<Rightarrow> (int \<rightharpoonup> element_result)" where
  "simulation_results_of f = (case f of
       Parsed rd \<Rightarrow> fold (\<lambda>el m. m(er_id el \<mapsto> el)) (get_list (rd_elements rd)) Map.empty
     | _ \<Rightarrow> Map.empty)"

definition node_results_of :: "results_data json_file \<Rightarrow> (int \<rightharpoonup> node_result)" where
  "node_results_of f = (case f of
       Parsed rd \<Rightarrow> fold (\<lambda>nd m. m(nr_id nd \<mapsto> nd)) (get_list (rd_nodes rd)) Map.empty
     | _ \<Rightarrow> Map.empty)"

subsection \<open>Scene metrics (lines 71 to 91)\<close>

definition complexity_factor :: "element list \<Rightarrow> real" where
  "complexity_factor all_elements =
     max 0.35 (sqrt (12 / max 12 (real (length all_elements))))"

text \<open>
  Binary64 arithmetic. \<open>fl r\<close> is the double nearest to the real \<open>r\<close>, ties to the even
  mantissa, with 53 bits of mantissa and subnormals below \<open>2\<^sup>-\<^sup>1\<^sup>0\<^sup>2\<^sup>2\<close>. A float is a
  finite double, \<open>inf\<close> or \<open>nan\<close>; a result beyond the largest double is \<open>inf\<close>. The values
  rounded in lines 77 to 80 are never negative, since \<open>max(cs) \<ge> min(cs)\<close>.
\<close>

definition round_even :: "real \<Rightarrow> int" where
  "round_even x =
     (let f = \<lfloor>x\<rfloor>; d = x - of_int f
      in if d < 1/2 then f else if 1/2 < d then f + 1 else if even f then f else f + 1)"

definition fl :: "real \<Rightarrow> real" where
  "fl r =
     (if r = 0 then 0
      else let e = max \<lfloor>log 2 \<bar>r\<bar>\<rfloor> (- 1022); u = 2 powr (of_int (e - 52))
           in of_int (round_even (r / u)) * u)"

datatype fval = Fin real | PInf | NaNf

definition max_float :: real where
  "max_float = (2 ^ 53 - 1) * 2 ^ 971"

definition fround :: "real \<Rightarrow> fval" where
  "fround r = (if fl r > max_float then PInf else Fin (fl r))"

text \<open>\<open>a > 0\<close>, \<open>a / b\<close> for \<open>a \<ge> 0\<close> and \<open>b > 0\<close>, and \<open>a * c\<close> for a finite \<open>c > 0\<close>.\<close>

definition f_gt0 :: "fval \<Rightarrow> bool" where
  "f_gt0 a = (case a of Fin x \<Rightarrow> x > 0 | PInf \<Rightarrow> True | NaNf \<Rightarrow> False)"

definition fdiv :: "fval \<Rightarrow> fval \<Rightarrow> fval" where
  "fdiv a b =
     (case a of
        Fin x \<Rightarrow> (case b of Fin y \<Rightarrow> fround (x / y) | PInf \<Rightarrow> Fin 0 | NaNf \<Rightarrow> NaNf)
      | PInf \<Rightarrow> (case b of Fin y \<Rightarrow> PInf | PInf \<Rightarrow> NaNf | NaNf \<Rightarrow> NaNf)
      | NaNf \<Rightarrow> NaNf)"

definition fmul :: "fval \<Rightarrow> real \<Rightarrow> fval" where
  "fmul a c = (case a of Fin x \<Rightarrow> fround (x * c) | PInf \<Rightarrow> PInf | NaNf \<Rightarrow> NaNf)"

text \<open>\<open>max(cs) - min(cs) if cs else dflt\<close>.\<close>

definition span :: "real list \<Rightarrow> real \<Rightarrow> fval" where
  "span cs dflt =
     (case cs of [] \<Rightarrow> Fin dflt | c # rest \<Rightarrow> fround (fold max rest c - fold min rest c))"

definition x_coords :: "node_dict \<Rightarrow> real list" where
  "x_coords all_nodes = map (\<lambda>(k, n). n_x n) all_nodes"

definition y_coords :: "node_dict \<Rightarrow> real list" where
  "y_coords all_nodes = map (\<lambda>(k, n). n_y n) all_nodes"

definition aspect_ratio :: "node_dict \<Rightarrow> fval" where
  "aspect_ratio all_nodes =
     (let dx = span (x_coords all_nodes) 10;
          dy = span (y_coords all_nodes) 5
      in if f_gt0 dx then fdiv dy dx else Fin 1)"

text \<open>
  Python's \<open>int\<close> of a float truncates towards zero; it raises \<open>OverflowError\<close> on \<open>inf\<close>
  and \<open>ValueError\<close> on \<open>nan\<close>.
\<close>

definition py_int :: "fval \<Rightarrow> py_error + int" where
  "py_int a =
     (case a of
        Fin x \<Rightarrow> Inr (if 0 \<le> x then \<lfloor>x\<rfloor> else \<lceil>x\<rceil>)
      | PInf \<Rightarrow> Inl OverflowError
      | NaNf \<Rightarrow> Inl ValueError)"

definition rec_h :: "node_dict \<Rightarrow> py_error + int" where
  "rec_h all_nodes =
     (case py_int (fmul (aspect_ratio all_nodes) 300) of
        Inl err \<Rightarrow> Inl err
      | Inr i \<Rightarrow> Inr (max 500 (min 900 (500 + i))))"

definition member_length :: "node \<Rightarrow> node \<Rightarrow> real" where
  "member_length s t = sqrt ((n_x s - n_x t)\<^sup>2 + (n_y s - n_y t)\<^sup>2)"

text \<open>The list comprehension of lines 84 to 86: one length per member with both joints known.\<close>

definition lengths :: "node_dict \<Rightarrow> element list \<Rightarrow> real list" where
  "lengths all_nodes all_elements =
     List.map_filter (\<lambda>e.
        case map_of all_nodes (e_start e) of
          None \<Rightarrow> None
        | Some s \<Rightarrow> (case map_of all_nodes (e_end e) of
                      None \<Rightarrow> None
                    | Some t \<Rightarrow> Some (member_length s t))) all_elements"

text \<open>\<open>min\<close> of an empty generator raises \<open>ValueError\<close>.\<close>

definition min_len :: "node_dict \<Rightarrow> element list \<Rightarrow> py_error + real" where
  "min_len all_nodes all_elements =
     (if all_elements = [] then Inr 2
      else if lengths all_nodes all_elements = [] then Inr 2
      else (case filter (\<lambda>l. l > 0) (lengths all_nodes all_elements) of
              [] \<Rightarrow> Inl ValueError
            | l # rest \<Rightarrow> Inr (fold min rest l)))"

definition auto_mult :: "element list \<Rightarrow> real" where
  "auto_mult all_elements =
     (if length all_elements > 20 then 0.55
      else if length all_elements < 8 then 0.75 else 0.65)"

definition visual_scale :: "node_dict \<Rightarrow> element list \<Rightarrow> py_error + real" where
  "visual_scale all_nodes all_elements =
     (case min_len all_nodes all_elements of
        Inl err \<Rightarrow> Inl err
      | Inr ml \<Rightarrow> Inr (max 0.1 (min (ml * 0.3) 0.6)
                        * complexity_factor all_elements * auto_mult all_elements))"

subsection \<open>The figure\<close>

text \<open>
  A coordinate of a trace is a number, the float \<open>nan\<close>, or Python's \<open>None\<close> (a gap).
  A text is a sequence of pieces of an f-string: literal characters, \<open>str\<close> of an
  integer, or a float printed with a fixed number of decimals.
\<close>

datatype coord = Val real | NaN | Gap

datatype piece = Lit string | IntStr int | Dec nat real

type_synonym label = "piece list"

datatype style =
    Line string real
  | Filled string real
  | Marker "string option" real string

record trace =
  tr_x :: "coord list"
  tr_y :: "coord list"
  tr_style :: style
  tr_name :: "string option"
  tr_legendgroup :: "string option"
  tr_showlegend :: "bool option"
  tr_hover :: "label list"

record annotation =
  an_x :: real
  an_y :: real
  an_text :: label
  an_bgcolor :: string
  an_font_size :: real
  an_yshift :: real

record fig =
  traces :: "trace list"
  annotations :: "annotation list"

definition add_trace :: "trace \<Rightarrow> fig \<Rightarrow> fig" where
  "add_trace t f = f\<lparr>traces := traces f @ [t]\<rparr>"

definition add_annotation :: "annotation \<Rightarrow> fig \<Rightarrow> fig" where
  "add_annotation a f = f\<lparr>annotations := annotations f @ [a]\<rparr>"

subsection \<open>The arrow helper \<open>add_trace_arrow\<close> (lines 94 to 137)\<close>

text \<open>\<open>numpy.arctan2\<close> on real numbers.\<close>

definition arctan2 :: "real \<Rightarrow> real \<Rightarrow> real" where
  "arctan2 y x =
     (if 0 < x then arctan (y / x)
      else if x < 0 then (if 0 \<le> y then arctan (y / x) + pi else arctan (y / x) - pi)
      else if 0 < y then pi / 2
      else if y < 0 then - (pi / 2)
      else 0)"

text \<open>The substring test \<open>sub in s\<close>.\<close>

fun py_in :: "string \<Rightarrow> string \<Rightarrow> bool" where
  "py_in sub [] = (sub = [])"
| "py_in sub (c # cs) = (take (length sub) (c # cs) = sub \<or> py_in sub cs)"

definition arrow_shape ::
  "coord list \<Rightarrow> coord list \<Rightarrow> style \<Rightarrow> string \<Rightarrow> trace" where
  "arrow_shape xs ys sty grp =
     \<lparr>tr_x = xs, tr_y = ys, tr_style = sty, tr_name = None,
      tr_legendgroup = Some grp, tr_showlegend = Some False, tr_hover = []\<rparr>"

text \<open>The six traces of one arrow: shaft and head in dark, white and colour.\<close>

definition arrow_traces ::
  "real \<Rightarrow> real \<Rightarrow> real \<Rightarrow> real \<Rightarrow> real \<Rightarrow> real \<Rightarrow> string \<Rightarrow> string \<Rightarrow> trace list" where
  "arrow_traces vs cf start_x start_y end_x end_y color grp =
     (let h_sz = 0.48 * vs;
          angle = arctan2 (end_y - start_y) (end_x - start_x);
          sh_len = 0.7 * h_sz;
          sx_e = end_x - sh_len * cos angle;
          sy_e = end_y - sh_len * sin angle;
          bw = 0.08 * h_sz;
          bx_s = start_x + bw * cos angle;
          by_s = start_y + bw * sin angle;
          bx_e = sx_e - bw * cos angle;
          by_e = sy_e - bw * sin angle;
          a1 = angle + pi * 1.11;
          a2 = angle - pi * 1.11;
          hx = [Val end_x, Val (end_x + h_sz * cos a1), Val (end_x + h_sz * cos a2), Val end_x, Gap];
          hy = [Val end_y, Val (end_y + h_sz * sin a1), Val (end_y + h_sz * sin a2), Val end_y, Gap];
          w_dark = max 6 (8 * cf);
          w_white = max 4 (6 * cf);
          w_color = max 2 (4 * cf);
          dark_c = ''#0f172a'';
          shaft_x = [Val bx_s, Val bx_e, Gap];
          shaft_y = [Val by_s, Val by_e, Gap]
      in [arrow_shape shaft_x shaft_y (Line dark_c w_dark) grp,
          arrow_shape hx hy (Filled dark_c 2.5) grp,
          arrow_shape shaft_x shaft_y (Line ''white'' w_white) grp,
          arrow_shape hx hy (Filled ''white'' 1.5) grp,
          arrow_shape shaft_x shaft_y (Line color w_color) grp,
          arrow_shape hx hy (Filled color 0.8) grp])"

text \<open>The badge of an arrow, drawn when a text is given (\<open>if text:\<close>).\<close>

definition arrow_badge ::
  "real \<Rightarrow> real \<Rightarrow> real \<Rightarrow> real \<Rightarrow> real \<Rightarrow> real \<Rightarrow> string \<Rightarrow> string \<Rightarrow> label \<Rightarrow> real
     \<Rightarrow> annotation" where
  "arrow_badge vs cf start_x start_y end_x end_y color name txt text_offset =
     (let angle = arctan2 (end_y - start_y) (end_x - start_x);
          off = text_offset * vs;
          (lx, ly) = (if py_in ''Force'' name
                      then (end_x + cos angle * off, end_y + sin angle * off)
                      else (start_x - cos angle * off, start_y - sin angle * off));
          (lx, ly) = (if py_in ''Reaction'' name
                      then (start_x - cos angle * off, start_y - sin angle * off)
                      else (lx, ly))
      in \<lparr>an_x = lx, an_y = ly, an_text = txt, an_bgcolor = color,
          an_font_size = min 10 (8 + 2.5 * cf), an_yshift = 0\<rparr>)"

definition add_trace_arrow ::
  "real \<Rightarrow> real \<Rightarrow> fig \<Rightarrow> real \<Rightarrow> real \<Rightarrow> real \<Rightarrow> real \<Rightarrow> string \<Rightarrow> string \<Rightarrow> string
     \<Rightarrow> label option \<Rightarrow> real \<Rightarrow> fig" where
  "add_trace_arrow vs cf f start_x start_y end_x end_y color name grp txt
       text_offset =
     (let f1 = fold add_trace
                 (arrow_traces vs cf start_x start_y end_x end_y color grp) f
      in case txt of
           None \<Rightarrow> f1
         | Some t \<Rightarrow> if t = [] then f1
                     else add_annotation
                            (arrow_badge vs cf start_x start_y end_x end_y
                               color name t text_offset) f1)"

text \<open>
  A member of length zero divides by the numpy float zero: the slopes are \<open>nan\<close>, and so
  is every number of the two arrows drawn from them.
\<close>

fun nan_coord :: "coord \<Rightarrow> coord" where
  "nan_coord (Val v) = NaN"
| "nan_coord c = c"

definition nan_trace :: "trace \<Rightarrow> trace" where
  "nan_trace t = t\<lparr>tr_x := map nan_coord (tr_x t), tr_y := map nan_coord (tr_y t)\<rparr>"

subsection \<open>Members (lines 139 to 237)\<close>

text \<open>Colour and width of the member line (lines 150 to 166).\<close>

definition beam_color_width :: "element_result option \<Rightarrow> string \<times> real" where
  "beam_color_width res =
     (case res of
        None \<Rightarrow> (''#3b82f6'', 4)
      | Some beam_result \<Rightarrow>
          if er_safety beam_result < 1 then (''#ef4444'', 6)
          else if er_safety beam_result < 2 then (''#f59e0b'', 5)
          else (''#10b981'', 6))"

definition hover_text :: "element \<Rightarrow> element_result option \<Rightarrow> label" where
  "hover_text el res =
     [Lit ''Beam #'', IntStr (e_id el)] @
     (case res of
        None \<Rightarrow> []
      | Some beam_result \<Rightarrow>
          [Lit ''<br>Force: '', Dec 2 (er_force beam_result), Lit '' kN<br>Safety: '',
           Dec 2 (er_safety beam_result)])"

text \<open>The legend group of the member line (lines 169 to 175).\<close>

definition legend_group_name :: "element_result option \<Rightarrow> string" where
  "legend_group_name res =
     (case res of
        None \<Rightarrow> ''Beam (Draft)''
      | Some beam_result \<Rightarrow>
          if er_safety beam_result < 1 then ''Beam (Unsafe)''
          else if er_safety beam_result < 2 then ''Beam (Caution)''
          else ''Beam (Safe)'')"

definition beam_line ::
  "node \<Rightarrow> node \<Rightarrow> element \<Rightarrow> element_result option \<Rightarrow> bool \<Rightarrow> trace" where
  "beam_line node_start node_end el res show_legend_item =
     (let (beam_color, beam_width) = beam_color_width res
      in \<lparr>tr_x = [Val (n_x node_start), Val (n_x node_end), Gap],
          tr_y = [Val (n_y node_start), Val (n_y node_end), Gap],
          tr_style = Line beam_color beam_width,
          tr_name = Some (legend_group_name res),
          tr_legendgroup = Some (legend_group_name res),
          tr_showlegend = Some show_legend_item,
          tr_hover = [hover_text el res]\<rparr>)"

text \<open>
  Tail and tip of the two internal-force arrows (lines 200 to 236), as the arguments
  \<open>(t_x, t_y, h_x, h_y)\<close> passed to \<open>add_trace_arrow\<close> for \<open>sign = 1\<close> and \<open>sign = -1\<close>.
\<close>

definition internal_force_arrows ::
  "real \<Rightarrow> real \<Rightarrow> real \<Rightarrow> real \<Rightarrow> real \<Rightarrow> real \<Rightarrow> (real \<times> real \<times> real \<times> real) list" where
  "internal_force_arrows vs start_x start_y end_x end_y force_value =
     (let is_compression = (force_value \<le> 0);
          length_of_beam = sqrt ((end_x - start_x)\<^sup>2 + (end_y - start_y)\<^sup>2);
          midpoint_x = (start_x + end_x) / 2;
          midpoint_y = (start_y + end_y) / 2;
          slope_x = (end_x - start_x) / length_of_beam;
          slope_y = (end_y - start_y) / length_of_beam;
          arrow_length = min (vs * 1.5) (length_of_beam * 0.35);
          inner_gap_distance = min (vs * 0.6) (length_of_beam * 0.1);
          outer_gap_distance = inner_gap_distance + arrow_length;
          (dist_tail, dist_tip) =
             (if is_compression then (outer_gap_distance, inner_gap_distance)
              else (inner_gap_distance, outer_gap_distance))
      in map (\<lambda>sign. (midpoint_x + sign * slope_x * dist_tail,
                        midpoint_y + sign * slope_y * dist_tail,
                        midpoint_x + sign * slope_x * dist_tip,
                        midpoint_y + sign * slope_y * dist_tip)) [1, -1])"

definition arrow_color_group :: "real \<Rightarrow> string \<times> string" where
  "arrow_color_group force_value =
     (if force_value \<le> 0 then (''#fb923c'', ''Compression Force'')
      else (''#22d3ee'', ''Tension Force''))"

definition draw_internal_force ::
  "real \<Rightarrow> real \<Rightarrow> real \<Rightarrow> real \<Rightarrow> real \<Rightarrow> real \<Rightarrow> real \<Rightarrow> fig \<Rightarrow> fig" where
  "draw_internal_force vs cf start_x start_y end_x end_y force_value f =
     (let (arrow_color, legend_group_arrow) = arrow_color_group force_value
      in if sqrt ((end_x - start_x)\<^sup>2 + (end_y - start_y)\<^sup>2) = 0
         then fold (\<lambda>sign. fold add_trace
                      (map nan_trace (arrow_traces vs cf 0 0 0 0 arrow_color legend_group_arrow)))
                [1 :: int, -1] f
         else fold (\<lambda>(t_x, t_y, h_x, h_y) g.
                      add_trace_arrow vs cf g t_x t_y h_x h_y arrow_color ''Internal Force''
                        legend_group_arrow None 0.45)
                (internal_force_arrows vs start_x start_y end_x end_y force_value) f)"

text \<open>
  One round of the loop over the members. The state is the figure and the set
  \<open>_legend_set\<close> of legend groups already shown. The set lives in the dictionary of the
  results under a string key, which no integer id meets.
\<close>

definition beam_step ::
  "real \<Rightarrow> real \<Rightarrow> node_dict \<Rightarrow> (int \<rightharpoonup> element_result) \<Rightarrow> element
     \<Rightarrow> fig \<times> string set \<Rightarrow> fig \<times> string set" where
  "beam_step vs cf all_nodes simulation_results el st =
     (case map_of all_nodes (e_start el) of
        None \<Rightarrow> st
      | Some node_start \<Rightarrow>
         (case map_of all_nodes (e_end el) of
            None \<Rightarrow> st
          | Some node_end \<Rightarrow>
             (let (f, legend_set) = st;
                  res = simulation_results (e_id el);
                  show_legend_item = (legend_group_name res \<notin> legend_set);
                  f1 = add_trace (beam_line node_start node_end el res show_legend_item) f;
                  f2 = (case res of
                          None \<Rightarrow> f1
                        | Some beam_result \<Rightarrow>
                            if \<bar>er_force beam_result\<bar> > 0.1
                            then draw_internal_force vs cf (n_x node_start) (n_y node_start)
                                   (n_x node_end) (n_y node_end) (er_force beam_result) f1
                            else f1)
              in (f2, insert (legend_group_name res) legend_set))))"

subsection \<open>Legend entries of the forces (lines 239 and 240)\<close>

definition force_legend :: "(string \<times> string) list" where
  "force_legend =
     [(''Tension Force'', ''#22d3ee''), (''Compression Force'', ''#fb923c''),
      (''Load Force'', ''#f43f5e''), (''Reaction Force'', ''#8b5cf6'')]"

definition legend_entry :: "string \<times> string \<Rightarrow> trace" where
  "legend_entry nc =
     \<lparr>tr_x = [Gap], tr_y = [Gap], tr_style = Marker (Some ''arrow-bar-up'') 10 (snd nc),
      tr_name = Some (fst nc), tr_legendgroup = Some (fst nc), tr_showlegend = None,
      tr_hover = []\<rparr>"

subsection \<open>Joints, supports, loads and reactions (lines 244 to 328)\<close>

definition markers :: "string \<Rightarrow> string \<times> string" where
  "markers support_type =
     (if support_type = ''Pinned Support'' then (''triangle-up-dot'', ''#000000'')
      else if support_type = ''Roller Support'' then (''circle'', ''#000000'')
      else if support_type = ''Fixed (Rigid)'' then (''square-dot'', ''#000000'')
      else (''circle'', ''#1e3d59''))"

definition support_type_of :: "node \<Rightarrow> string" where
  "support_type_of nd = (case n_type nd of None \<Rightarrow> ''Free Joint'' | Some t \<Rightarrow> t)"

definition support_trace :: "real \<Rightarrow> node \<Rightarrow> bool \<Rightarrow> trace" where
  "support_trace vs nd show_legend_support =
     (let support_type = support_type_of nd;
          (marker_symbol, marker_color) = markers support_type;
          s_sz = max 22 (55 * vs)
      in \<lparr>tr_x = [Val (n_x nd)], tr_y = [Val (n_y nd - 0.12 * vs)],
          tr_style = Marker (Some marker_symbol) s_sz marker_color,
          tr_name = Some support_type, tr_legendgroup = Some support_type,
          tr_showlegend = Some show_legend_support,
          tr_hover = [[Lit support_type]]\<rparr>)"

text \<open>Layer 1: the support icon, with the set \<open>_support_legend\<close> (lines 258 to 277).\<close>

definition support_step :: "real \<Rightarrow> node \<Rightarrow> fig \<times> string set \<Rightarrow> fig \<times> string set" where
  "support_step vs nd st =
     (let (f, support_legend) = st; support_type = support_type_of nd
      in if support_type \<noteq> ''Free Joint''
         then (add_trace (support_trace vs nd (support_type \<notin> support_legend)) f,
               insert support_type support_legend)
         else st)"

text \<open>Layer 2: the load arrow (lines 282 to 295).\<close>

definition load_step :: "real \<Rightarrow> real \<Rightarrow> node \<Rightarrow> fig \<Rightarrow> fig" where
  "load_step vs cf nd f =
     (let node_x = n_x nd; node_y = n_y nd;
          load_component_x = get_num (n_loadX nd);
          load_component_y = get_num (n_loadY nd);
          load_magnitude = sqrt (load_component_x\<^sup>2 + load_component_y\<^sup>2) / 1000
      in if load_magnitude > 0.001
         then (let direction_x = load_component_x / 1000;
                   direction_y = load_component_y / 1000;
                   norm = sqrt (direction_x\<^sup>2 + direction_y\<^sup>2);
                   unit_dir_x = direction_x / norm;
                   unit_dir_y = direction_y / norm;
                   l_start_x = node_x + unit_dir_x * 0.15 * vs;
                   l_start_y = node_y + unit_dir_y * 0.15 * vs;
                   l_end_x = node_x + unit_dir_x * 1.6 * vs;
                   l_end_y = node_y + unit_dir_y * 1.6 * vs
               in add_trace_arrow vs cf f l_start_x l_start_y l_end_x l_end_y ''#f43f5e''
                    ''Load Force'' ''Load Force'' (Some [Dec 1 load_magnitude, Lit '' kN'']) 0.45)
         else f)"

text \<open>
  Layer 3: the reaction arrow (lines 300 to 312). \<open>reaction_arrow\<close> gives tail and head
  \<open>(r_tail_x, r_tail_y, r_head_x, r_head_y)\<close> from the joint and the scaled reaction.
\<close>

definition reaction_magnitude :: "node_result \<Rightarrow> real" where
  "reaction_magnitude r =
     (let rx_val = get_num (nr_rx r) / 1000; ry_val = get_num (nr_ry r) / 1000
      in sqrt (rx_val\<^sup>2 + ry_val\<^sup>2))"

definition reaction_arrow :: "real \<Rightarrow> node \<Rightarrow> node_result \<Rightarrow> real \<times> real \<times> real \<times> real" where
  "reaction_arrow vs nd r =
     (let node_x = n_x nd; node_y = n_y nd;
          rx_val = get_num (nr_rx r) / 1000; ry_val = get_num (nr_ry r) / 1000;
          norm = sqrt (rx_val\<^sup>2 + ry_val\<^sup>2);
          unit_rx = rx_val / norm; unit_ry = ry_val / norm;
          r_gap = 0.25 * vs; r_len = 1.6 * vs
      in (node_x - unit_rx * (r_len + r_gap), node_y - unit_ry * (r_len + r_gap),
          node_x - unit_rx * r_gap, node_y - unit_ry * r_gap))"

definition reaction_step ::
  "real \<Rightarrow> real \<Rightarrow> (int \<rightharpoonup> node_result) \<Rightarrow> int \<Rightarrow> node \<Rightarrow> fig \<Rightarrow> fig" where
  "reaction_step vs cf node_results node_id nd f =
     (case node_results node_id of
        None \<Rightarrow> f
      | Some r \<Rightarrow>
          if reaction_magnitude r > 0.001
          then (let (r_tail_x, r_tail_y, r_head_x, r_head_y) = reaction_arrow vs nd r
                in add_trace_arrow vs cf f r_tail_x r_tail_y r_head_x r_head_y ''#8b5cf6''
                     ''Reaction Force'' ''Reaction Force''
                     (Some [Lit ''R: '', Dec 1 (reaction_magnitude r)]) 0.45)
          else f)"

definition node_step ::
  "real \<Rightarrow> real \<Rightarrow> (int \<rightharpoonup> node_result) \<Rightarrow> int \<times> node
     \<Rightarrow> fig \<times> string set \<Rightarrow> fig \<times> string set" where
  "node_step vs cf node_results item st =
     (let (node_id, nd) = item;
          (f1, support_legend) = support_step vs nd st;
          f2 = load_step vs cf nd f1;
          f3 = reaction_step vs cf node_results node_id nd f2
      in (f3, support_legend))"

text \<open>The joints, drawn last (lines 315 to 319), and their badges (lines 322 to 328).\<close>

definition joints_trace :: "real \<Rightarrow> node_dict \<Rightarrow> trace" where
  "joints_trace vs all_nodes =
     \<lparr>tr_x = map (\<lambda>(node_id, nd). Val (n_x nd)) all_nodes,
      tr_y = map (\<lambda>(node_id, nd). Val (n_y nd)) all_nodes,
      tr_style = Marker None (max 10 (12 * vs / 0.6)) ''#1e3d59'',
      tr_name = None, tr_legendgroup = None, tr_showlegend = Some False,
      tr_hover = map (\<lambda>(node_id, nd). [Lit ''Joint '', IntStr node_id]) all_nodes\<rparr>"

definition joint_label :: "real \<Rightarrow> int \<times> node \<Rightarrow> annotation" where
  "joint_label cf item =
     (let (node_id, nd) = item
      in \<lparr>an_x = n_x nd, an_y = n_y nd, an_text = [IntStr node_id], an_bgcolor = ''#1e3d59'',
          an_font_size = min 10 (8 + 2 * cf), an_yshift = 10 * cf\<rparr>)"

subsection \<open>Member badges (lines 331 to 352)\<close>

definition label_bg_color :: "element_result option \<Rightarrow> string" where
  "label_bg_color res =
     (case res of
        None \<Rightarrow> ''#3b82f6''
      | Some beam_result \<Rightarrow>
          if er_safety beam_result < 1 then ''#ef4444''
          else if er_safety beam_result < 2 then ''#f59e0b''
          else ''#10b981'')"

definition beam_label :: "real \<Rightarrow> node \<Rightarrow> node \<Rightarrow> element \<Rightarrow> element_result option \<Rightarrow> annotation" where
  "beam_label cf node_1 node_2 el res =
     \<lparr>an_x = (n_x node_1 + n_x node_2) / 2, an_y = (n_y node_1 + n_y node_2) / 2,
      an_text = [Lit ''#'', IntStr (e_id el)], an_bgcolor = label_bg_color res,
      an_font_size = min 10 (8 + 2 * cf), an_yshift = 0\<rparr>"

definition beam_label_step ::
  "real \<Rightarrow> node_dict \<Rightarrow> (int \<rightharpoonup> element_result) \<Rightarrow> element \<Rightarrow> fig \<Rightarrow> fig" where
  "beam_label_step cf all_nodes simulation_results el f =
     (case map_of all_nodes (e_start el) of
        None \<Rightarrow> f
      | Some node_1 \<Rightarrow>
         (case map_of all_nodes (e_end el) of
            None \<Rightarrow> f
          | Some node_2 \<Rightarrow>
              add_annotation (beam_label cf node_1 node_2 el (simulation_results (e_id el))) f))"

subsection \<open>The renderer (lines 34 to 384)\<close>

text \<open>
  The result is Python's \<open>None\<close> or the pair of the figure and the recommended height.
  The recommended height is computed first (line 80), so its error comes first.
  The layout set at the end (lines 359 to 381) is the same for every figure and shows
  the legend; it is not part of the model.
\<close>

datatype outcome = NoFigure | Figure fig int

definition draw_layers ::
  "real \<Rightarrow> real \<Rightarrow> node_dict \<Rightarrow> element list \<Rightarrow> (int \<rightharpoonup> element_result)
     \<Rightarrow> (int \<rightharpoonup> node_result) \<Rightarrow> fig" where
  "draw_layers vs cf all_nodes all_elements simulation_results node_results =
     (let f0 = \<lparr>traces = [], annotations = []\<rparr>;
          (f1, legend_set) = fold (beam_step vs cf all_nodes simulation_results) all_elements (f0, {});
          f2 = fold add_trace (map legend_entry force_legend) f1;
          (f3, support_legend) = fold (node_step vs cf node_results) all_nodes (f2, {});
          f4 = add_trace (joints_trace vs all_nodes) f3;
          f5 = fold add_annotation (map (joint_label cf) all_nodes) f4
      in fold (beam_label_step cf all_nodes simulation_results) all_elements f5)"

definition draw_bridge ::
  "bridge_data json_file \<Rightarrow> results_data json_file \<Rightarrow> py_error + outcome" where
  "draw_bridge input_file output_file =
     (case input_file of
        Missing \<Rightarrow> Inr NoFigure
      | Unreadable \<Rightarrow> Inr NoFigure
      | Parsed bridge_data \<Rightarrow>
         (let simulation_results = simulation_results_of output_file;
              node_results = node_results_of output_file;
              all_nodes = all_nodes_of bridge_data;
              all_elements = all_elements_of bridge_data
          in case rec_h all_nodes of
               Inl err \<Rightarrow> Inl err
             | Inr h \<Rightarrow>
                (case visual_scale all_nodes all_elements of
                   Inl err \<Rightarrow> Inl err
                 | Inr vs \<Rightarrow>
                     Inr (Figure (draw_layers vs (complexity_factor all_elements) all_nodes
                                    all_elements simulation_results node_results) h))))"

subsection \<open>Formulas as the specification words them\<close>

text \<open>
  The specification's recommended height rounds; its visual scale floors the whole
  product. Both are written here as the specification states them, to be compared
  with \<open>rec_h\<close> and \<open>visual_scale\<close> above.
\<close>

definition span_spec :: "real list \<Rightarrow> real \<Rightarrow> real" where
  "span_spec cs dflt = (if cs = [] then dflt else Max (set cs) - Min (set cs))"

definition aspect_ratio_spec :: "node_dict \<Rightarrow> real" where
  "aspect_ratio_spec all_nodes =
     (let spanX = span_spec (x_coords all_nodes) 10;
          spanY = span_spec (y_coords all_nodes) 5
      in if spanX > 0 then spanY / spanX else 1)"

definition rec_h_spec :: "node_dict \<Rightarrow> int" where
  "rec_h_spec all_nodes = max 500 (min 900 (500 + round (aspect_ratio_spec all_nodes * 300)))"

definition visual_scale_spec :: "real \<Rightarrow> element list \<Rightarrow> real" where
  "visual_scale_spec ml all_elements =
     max 0.1 (min (ml * 0.3) 0.6 * complexity_factor all_elements * auto_mult all_elements)"


subsection \<open>The legend of a figure\<close>

text \<open>
  Plotly lists a trace in the legend unless its \<open>showlegend\<close> is \<open>False\<close>; the entry
  carries the name of the trace. A legend-only entry is a trace with no point to draw.
  A member is resolvable when both its joints exist (the test of lines 86, 141 and 332).
\<close>

definition shown :: "trace list \<Rightarrow> string option list" where
  "shown ts = map tr_name (filter (\<lambda>t. tr_showlegend t \<noteq> Some False) ts)"

definition legend :: "fig \<Rightarrow> string option list" where
  "legend f = shown (traces f)"

definition legend_only :: "trace \<Rightarrow> bool" where
  "legend_only t = (tr_x t = [Gap] \<and> tr_y t = [Gap])"

definition resolvable :: "node_dict \<Rightarrow> element \<Rightarrow> bool" where
  "resolvable all_nodes el =
     (map_of all_nodes (e_start el) \<noteq> None \<and> map_of all_nodes (e_end el) \<noteq> None)"

definition beam_legend_names :: "string set" where
  "beam_legend_names = {''Beam (Draft)'', ''Beam (Unsafe)'', ''Beam (Caution)'', ''Beam (Safe)''}"

definition force_legend_names :: "string set" where
  "force_legend_names = {''Tension Force'', ''Compression Force'', ''Load Force'', ''Reaction Force''}"

definition beam_classes_present ::
  "node_dict \<Rightarrow> (int \<rightharpoonup> element_result) \<Rightarrow> element list \<Rightarrow> string set" where
  "beam_classes_present all_nodes sim es =
     set (map (\<lambda>el. legend_group_name (sim (e_id el))) (filter (resolvable all_nodes) es))"

definition support_types_present :: "node_dict \<Rightarrow> string set" where
  "support_types_present all_nodes =
     set (filter (\<lambda>t. t \<noteq> ''Free Joint'') (map (\<lambda>item. support_type_of (snd item)) all_nodes))"

text \<open>
  Devices for the proofs about the legend. A quiet trace is hidden from the legend,
  unnamed and not legend-only: the traces of every arrow are quiet. \<open>ext f g\<close> says
  that \<open>g\<close> is \<open>f\<close> with quiet traces added. \<open>legend_step\<close> abstracts one round of either
  loop that keeps a legend set: the round adds quiet traces only, or one named trace,
  shown when its name is new, and then quiet traces.
\<close>

definition quiet :: "trace \<Rightarrow> bool" where
  "quiet t = (tr_showlegend t = Some False \<and> tr_name t = None \<and> \<not> legend_only t)"

definition unnamed_hidden :: "trace \<Rightarrow> bool" where
  "unnamed_hidden t = (tr_name t = None \<longrightarrow> tr_showlegend t = Some False)"

definition ext :: "fig \<Rightarrow> fig \<Rightarrow> bool" where
  "ext f g = (\<exists>ts. traces g = traces f @ ts \<and> list_all quiet ts)"

definition legend_step ::
  "string option \<Rightarrow> fig \<times> string set \<Rightarrow> fig \<times> string set \<Rightarrow> bool" where
  "legend_step n st st' =
     (case n of
        None \<Rightarrow> ext (fst st) (fst st') \<and> snd st' = snd st
      | Some N \<Rightarrow>
          snd st' = insert N (snd st) \<and>
          (\<exists>T. tr_name T = Some N \<and> tr_showlegend T = Some (N \<notin> snd st) \<and> \<not> legend_only T
               \<and> ext (add_trace T (fst st)) (fst st')))"

definition keys_of :: "('a \<Rightarrow> string option) \<Rightarrow> 'a list \<Rightarrow> string set" where
  "keys_of key xs = {N. Some N \<in> key ` set xs}"

definition beam_key :: "node_dict \<Rightarrow> (int \<rightharpoonup> element_result) \<Rightarrow> element \<Rightarrow> string option" where
  "beam_key all_nodes sim el =
     (if resolvable all_nodes el then Some (legend_group_name (sim (e_id el))) else None)"

definition support_key :: "int \<times> node \<Rightarrow> string option" where
  "support_key item =
     (if support_type_of (snd item) \<noteq> ''Free Joint'' then Some (support_type_of (snd item)) else None)"

subsection \<open>Concrete documents\<close>

definition joint :: "int \<Rightarrow> real \<Rightarrow> real \<Rightarrow> node" where
  "joint i x y = \<lparr>n_id = i, n_x = x, n_y = y, n_type = None, n_loadX = None, n_loadY = None\<rparr>"

text \<open>Two joints at the same place and a member between them.\<close>

definition coincident_model :: bridge_data where
  "coincident_model =
     \<lparr>bd_nodes = Some [\<lparr>n_id = 1, n_x = 0, n_y = 0, n_type = Some ''Pinned Support'',
                        n_loadX = Some 0, n_loadY = Some 0\<rparr>,
                       \<lparr>n_id = 2, n_x = 0, n_y = 0, n_type = Some ''Free Joint'',
                        n_loadX = Some 0, n_loadY = Some 0\<rparr>],
      bd_elements = Some [\<lparr>e_id = 1, e_start = 1, e_end = 2\<rparr>]\<rparr>"

text \<open>One member of length 0.1.\<close>

definition short_member_model :: bridge_data where
  "short_member_model =
     \<lparr>bd_nodes = Some [joint 1 0 0, joint 2 (1/10) 0],
      bd_elements = Some [\<lparr>e_id = 1, e_start = 1, e_end = 2\<rparr>]\<rparr>"

text \<open>A bounding box 400 wide and 1 high.\<close>

definition flat_model :: bridge_data where
  "flat_model =
     \<lparr>bd_nodes = Some [joint 1 0 0, joint 2 400 1],
      bd_elements = Some [\<lparr>e_id = 1, e_start = 1, e_end = 2\<rparr>]\<rparr>"


text \<open>Seven members between joints 1 and 2, and an eighth whose end joint 99 does not exist.\<close>

definition seven_members :: "element list" where
  "seven_members = map (\<lambda>i. \<lparr>e_id = i, e_start = 1, e_end = 2\<rparr>) [1, 2, 3, 4, 5, 6, 7]"

definition dangling_member :: element where
  "dangling_member = \<lparr>e_id = 8, e_start = 1, e_end = 99\<rparr>"

definition dangling_model :: bridge_data where
  "dangling_model =
     \<lparr>bd_nodes = Some [joint 1 0 0, joint 2 4 0],
      bd_elements = Some (seven_members @ [dangling_member])\<rparr>"

text \<open>The truss the application starts with, a load of 50 kN at joint 2, and results for it.\<close>

definition truss_model :: bridge_data where
  "truss_model =
     \<lparr>bd_nodes = Some
        [\<lparr>n_id = 1, n_x = 0, n_y = 0, n_type = Some ''Pinned Support'', n_loadX = Some 0, n_loadY = Some 0\<rparr>,
         \<lparr>n_id = 2, n_x = 4, n_y = 0, n_type = Some ''Free Joint'', n_loadX = Some 0, n_loadY = Some (- 50000)\<rparr>,
         \<lparr>n_id = 3, n_x = 8, n_y = 0, n_type = Some ''Roller Support'', n_loadX = Some 0, n_loadY = Some 0\<rparr>,
         \<lparr>n_id = 4, n_x = 4, n_y = 4, n_type = Some ''Free Joint'', n_loadX = Some 0, n_loadY = Some 0\<rparr>],
      bd_elements = Some
        [\<lparr>e_id = 1, e_start = 1, e_end = 2\<rparr>, \<lparr>e_id = 2, e_start = 2, e_end = 3\<rparr>,
         \<lparr>e_id = 3, e_start = 1, e_end = 4\<rparr>, \<lparr>e_id = 4, e_start = 2, e_end = 4\<rparr>,
         \<lparr>e_id = 5, e_start = 4, e_end = 3\<rparr>]\<rparr>"

definition truss_results :: results_data where
  "truss_results =
     \<lparr>rd_elements = Some
        [\<lparr>er_id = 1, er_force = 25000, er_safety = 15\<rparr>,
         \<lparr>er_id = 2, er_force = 25000, er_safety = 15\<rparr>,
         \<lparr>er_id = 3, er_force = - 35355, er_safety = 3/2\<rparr>,
         \<lparr>er_id = 4, er_force = 50000, er_safety = 3/4\<rparr>,
         \<lparr>er_id = 5, er_force = - 35355, er_safety = 3/2\<rparr>],
      rd_nodes = Some
        [\<lparr>nr_id = 1, nr_rx = Some 0, nr_ry = Some 25000\<rparr>,
         \<lparr>nr_id = 3, nr_rx = Some 0, nr_ry = Some 25000\<rparr>]\<rparr>"

text \<open>Results for the same truss with safety factors at and beside the class boundaries; member 4 has none.\<close>

definition boundary_results :: results_data where
  "boundary_results =
     \<lparr>rd_elements = Some
        [\<lparr>er_id = 1, er_force = 25000, er_safety = 1\<rparr>,
         \<lparr>er_id = 2, er_force = 25000, er_safety = 2\<rparr>,
         \<lparr>er_id = 3, er_force = - 35355, er_safety = 999/1000\<rparr>,
         \<lparr>er_id = 5, er_force = - 35355, er_safety = 1999/1000\<rparr>],
      rd_nodes = None\<rparr>"



section \<open>Properties\<close>

subsection \<open>Binary64 rounding\<close>

lemma pw: "(2::real) powr (real n) = 2 ^ n"
  by (rule powr_realpow) simp

lemma pw_diff: "(2::real) powr (real a - real n) = 2 ^ a / 2 ^ n"
  by (simp only: powr_diff pw)

lemma pw_add: "(2::real) powr (real a + real n) = 2 ^ a * 2 ^ n"
  by (simp only: powr_add pw)

lemma floor_log2:
  assumes "0 < a" "2 powr (of_int e) \<le> a" "a < 2 powr (of_int e + 1)"
  shows "\<lfloor>log 2 a\<rfloor> = e"
proof -
  have 1: "of_int e \<le> log 2 a" using assms(1,2) by (simp add: le_log_iff)
  have 2: "log 2 a < of_int e + 1" using assms(1,3) by (simp add: log_less_iff)
  from 1 2 show ?thesis by (simp add: floor_eq_iff)
qed

lemma fl_0 [simp]: "fl 0 = 0"
  by (simp add: fl_def)

text \<open>A number with binary exponent \<open>52 - s\<close> is rounded to a multiple of \<open>2\<^sup>-\<^sup>s\<close>.\<close>

lemma fl_down:
  fixes s :: nat
  assumes "s \<le> 1074" "2 ^ 52 \<le> \<bar>r\<bar> * 2 ^ s" "\<bar>r\<bar> * 2 ^ s < 2 ^ 53"
  shows "fl r = of_int (round_even (r * 2 ^ s)) / 2 ^ s"
proof -
  have r0: "r \<noteq> 0" using assms(2) by auto
  have "real_of_int (52 - int s) = real (52::nat) - real s" by simp
  then have p: "2 powr (of_int (52 - int s)) = (2::real) ^ 52 / 2 ^ s"
    by (simp only: pw_diff)
  have "real_of_int (52 - int s) + 1 = real (53::nat) - real s" by simp
  then have p1: "2 powr (of_int (52 - int s) + 1) = (2::real) ^ 53 / 2 ^ s"
    by (simp only: pw_diff)
  have "\<lfloor>log 2 \<bar>r\<bar>\<rfloor> = 52 - int s"
  proof (rule floor_log2)
    show "0 < \<bar>r\<bar>" using r0 by simp
    show "2 powr (of_int (52 - int s)) \<le> \<bar>r\<bar>"
      unfolding p using assms(2) by (simp add: field_simps)
    show "\<bar>r\<bar> < 2 powr (of_int (52 - int s) + 1)"
      unfolding p1 using assms(3) by (simp add: field_simps)
  qed
  moreover have "max (52 - int s) (- 1022) = 52 - int s" using assms(1) by simp
  moreover have "2 powr (of_int (52 - int s - 52)) = 1 / (2::real) ^ s"
  proof -
    have "real_of_int (52 - int s - 52) = real (0::nat) - real s" by simp
    then show ?thesis by (simp only: pw_diff power_0)
  qed
  ultimately show ?thesis using r0 by (simp add: fl_def Let_def)
qed

text \<open>A number with binary exponent \<open>52 + s\<close> is rounded to a multiple of \<open>2\<^sup>s\<close>.\<close>

lemma fl_up:
  fixes s :: nat
  assumes "2 ^ 52 \<le> \<bar>r\<bar> / 2 ^ s" "\<bar>r\<bar> / 2 ^ s < 2 ^ 53"
  shows "fl r = of_int (round_even (r / 2 ^ s)) * 2 ^ s"
proof -
  have r0: "r \<noteq> 0" using assms(1) by auto
  have "real_of_int (52 + int s) = real (52::nat) + real s" by simp
  then have p: "2 powr (of_int (52 + int s)) = (2::real) ^ 52 * 2 ^ s"
    by (simp only: pw_add)
  have "real_of_int (52 + int s) + 1 = real (53::nat) + real s" by simp
  then have p1: "2 powr (of_int (52 + int s) + 1) = (2::real) ^ 53 * 2 ^ s"
    by (simp only: pw_add)
  have "\<lfloor>log 2 \<bar>r\<bar>\<rfloor> = 52 + int s"
  proof (rule floor_log2)
    show "0 < \<bar>r\<bar>" using r0 by simp
    show "2 powr (of_int (52 + int s)) \<le> \<bar>r\<bar>"
      unfolding p using assms(1) by (simp add: field_simps)
    show "\<bar>r\<bar> < 2 powr (of_int (52 + int s) + 1)"
      unfolding p1 using assms(2) by (simp add: field_simps)
  qed
  moreover have "max (52 + int s) (- 1022) = 52 + int s" by simp
  moreover have "2 powr (of_int (52 + int s - 52)) = (2::real) ^ s"
  proof -
    have "real_of_int (52 + int s - 52) = real s" by simp
    then show ?thesis by (simp only: pw)
  qed
  ultimately show ?thesis using r0 by (simp add: fl_def Let_def)
qed

lemma round_even_numeral [simp]: "round_even (numeral n) = numeral n"
  by (simp add: round_even_def)

lemma round_even_nonneg: "0 \<le> x \<Longrightarrow> 0 \<le> round_even x"
  by (auto simp: round_even_def Let_def)

lemma fl_nonneg: "0 \<le> r \<Longrightarrow> 0 \<le> fl r"
proof (cases "r = 0")
  case True
  then show ?thesis by simp
next
  case False
  assume r: "0 \<le> r"
  define u :: real where "u = 2 powr (of_int (max \<lfloor>log 2 \<bar>r\<bar>\<rfloor> (- 1022) - 52))"
  have u: "0 < u" by (simp add: u_def)
  then have "0 \<le> r / u" using r by simp
  then have "0 \<le> round_even (r / u)" by (rule round_even_nonneg)
  then have "0 \<le> of_int (round_even (r / u)) * u" using u by simp
  moreover have "fl r = of_int (round_even (r / u)) * u"
    using False by (simp add: fl_def Let_def u_def)
  ultimately show ?thesis by simp
qed

lemma max_float_large: "(2::real) ^ 53 \<le> max_float"
  by (simp add: max_float_def)

lemma fround_small: "fl r \<le> 2 ^ 53 \<Longrightarrow> fround r = Fin (fl r)"
  using max_float_large by (simp add: fround_def)

lemma fround_0 [simp]: "fround 0 = Fin 0"
  by (simp add: fround_small)

text \<open>The doubles that the concrete documents meet.\<close>

lemma fl_1: "fl 1 = 1"
  using fl_down[of 52 1] by simp

lemma fl_4: "fl 4 = 4"
  using fl_down[of 50 4] by simp

lemma fl_8: "fl 8 = 8"
  using fl_down[of 49 8] by simp

lemma fl_half: "fl (1/2) = 1/2"
  using fl_down[of 53 "1/2"] by simp

lemma fl_150: "fl 150 = 150"
  using fl_down[of 45 150] by simp

lemma fl_300: "fl 300 = 300"
  using fl_down[of 44 300] by simp

lemma fl_400: "fl 400 = 400"
  using fl_down[of 44 400] by simp

lemma fl_400th: "fl (1/400) = 5764607523034235 / 2 ^ 61"
proof -
  have "round_even (2 ^ 61 / 400) = 5764607523034235"
    by (simp add: round_even_def Let_def)
  with fl_down[of 61 "1/400"] show ?thesis by simp
qed

lemma fl_400th_300: "fl (5764607523034235 / 2 ^ 61 * 300) = 3/4"
proof -
  have "round_even (5764607523034235 / 2 ^ 61 * 300 * 2 ^ 53) = 6755399441055744"
    by (simp add: round_even_def Let_def)
  with fl_down[of 53 "5764607523034235 / 2 ^ 61 * 300"] show ?thesis by simp
qed

text \<open>The largest power of two among the doubles, and 300 times it.\<close>

lemma fl_huge: "fl (2 ^ 1023) = 2 ^ 1023"
proof -
  have e: "(2::real) ^ 1023 / 2 ^ 971 = 2 ^ 52"
    using power_diff[of "2::real" 971 1023] by simp
  have a: "\<bar>(2::real) ^ 1023\<bar> = 2 ^ 1023" by simp
  have "fl (2 ^ 1023) = of_int (round_even (2 ^ 1023 / 2 ^ 971)) * 2 ^ 971"
    by (rule fl_up) (simp_all only: a e, simp_all)
  also have "\<dots> = 2 ^ 52 * 2 ^ 971" unfolding e by simp
  also have "\<dots> = (2::real) ^ 1023" using power_add[of "2::real" 52 971] by simp
  finally show ?thesis .
qed

lemma fl_huge_300: "fl (2 ^ 1023 * 300) = 2 ^ 1023 * 300"
proof -
  have e: "(2::real) ^ 1023 * 300 / 2 ^ 979 = 300 * 2 ^ 44"
    using power_add[of "2::real" 44 979] by simp
  have a: "\<bar>(2::real) ^ 1023 * 300\<bar> = 2 ^ 1023 * 300" by simp
  have "fl (2 ^ 1023 * 300) = of_int (round_even (2 ^ 1023 * 300 / 2 ^ 979)) * 2 ^ 979"
    by (rule fl_up) (simp_all only: a e, simp_all)
  also have "\<dots> = (300 * 2 ^ 44) * 2 ^ 979" unfolding e by simp
  also have "\<dots> = (2::real) ^ 1023 * 300" using power_add[of "2::real" 44 979] by simp
  finally show ?thesis .
qed

lemma max_float_less: "max_float < 2 ^ 1023 * 300" "2 ^ 1023 \<le> max_float"
proof -
  have m: "max_float = (2 ^ 53 - 1) * 2 ^ 971" by (simp add: max_float_def)
  have p: "(2::real) ^ 1023 = 2 ^ 52 * 2 ^ 971" using power_add[of "2::real" 52 971] by simp
  have "(2 ^ 53 - 1) * (2::real) ^ 971 < (2 ^ 52 * 300) * 2 ^ 971"
    by (rule mult_strict_right_mono) simp_all
  then show "max_float < 2 ^ 1023 * 300" unfolding m p by (simp add: mult.assoc mult.commute)
  have "(2 ^ 52) * (2::real) ^ 971 \<le> (2 ^ 53 - 1) * 2 ^ 971"
    by (rule mult_right_mono) simp_all
  then show "2 ^ 1023 \<le> max_float" unfolding m p .
qed

subsection \<open>Evaluating the concrete documents\<close>

lemma all_nodes_coincident:
  "all_nodes_of coincident_model =
     [(1, \<lparr>n_id = 1, n_x = 0, n_y = 0, n_type = Some ''Pinned Support'',
           n_loadX = Some 0, n_loadY = Some 0\<rparr>),
      (2, \<lparr>n_id = 2, n_x = 0, n_y = 0, n_type = Some ''Free Joint'',
           n_loadX = Some 0, n_loadY = Some 0\<rparr>)]"
  by (simp add: all_nodes_of_def coincident_model_def get_list_def)

lemma all_elements_coincident:
  "all_elements_of coincident_model = [\<lparr>e_id = 1, e_start = 1, e_end = 2\<rparr>]"
  by (simp add: all_elements_of_def coincident_model_def get_list_def)

lemma all_nodes_short:
  "all_nodes_of short_member_model = [(1, joint 1 0 0), (2, joint 2 (1/10) 0)]"
  by (simp add: all_nodes_of_def short_member_model_def get_list_def joint_def)

lemma all_elements_short:
  "all_elements_of short_member_model = [\<lparr>e_id = 1, e_start = 1, e_end = 2\<rparr>]"
  by (simp add: all_elements_of_def short_member_model_def get_list_def)

lemma min_len_short:
  "min_len (all_nodes_of short_member_model) (all_elements_of short_member_model) = Inr (1/10)"
proof -
  have "member_length (joint 1 0 0) (joint 2 (1/10) 0) = 1/10"
    unfolding member_length_def joint_def
    using real_sqrt_abs[of "1/10"] by (simp add: power2_eq_square)
  then show ?thesis
    by (simp add: min_len_def lengths_def all_nodes_short all_elements_short List.map_filter_simps)
qed

lemma all_nodes_flat: "all_nodes_of flat_model = [(1, joint 1 0 0), (2, joint 2 400 1)]"
  by (simp add: all_nodes_of_def flat_model_def get_list_def joint_def)

lemma aspect_ratio_flat:
  "aspect_ratio (all_nodes_of flat_model) = Fin (5764607523034235 / 2 ^ 61)"
proof -
  have x: "span (x_coords (all_nodes_of flat_model)) 10 = Fin 400"
    by (simp add: all_nodes_flat span_def x_coords_def joint_def fround_small fl_400)
  have y: "span (y_coords (all_nodes_of flat_model)) 5 = Fin 1"
    by (simp add: all_nodes_flat span_def y_coords_def joint_def fround_small fl_1)
  have "fround (1 / 400) = Fin (5764607523034235 / 2 ^ 61)"
    by (simp add: fround_small fl_400th)
  then show ?thesis
    by (simp add: aspect_ratio_def Let_def x y f_gt0_def fdiv_def)
qed

lemma rec_h_flat: "rec_h (all_nodes_of flat_model) = Inr 500"
proof -
  have "fround (5764607523034235 / 2 ^ 61 * 300) = Fin (3/4)"
    using fround_small[of "5764607523034235 / 2 ^ 61 * 300"] unfolding fl_400th_300 by simp
  then have "fmul (aspect_ratio (all_nodes_of flat_model)) 300 = Fin (3/4)"
    unfolding aspect_ratio_flat fmul_def by simp
  moreover have "\<lfloor>3/4::real\<rfloor> = 0" by (simp add: floor_eq_iff)
  ultimately show ?thesis
    by (simp add: rec_h_def py_int_def)
qed

lemma rec_h_coincident: "rec_h (all_nodes_of coincident_model) = Inr 800"
proof -
  have x: "span (x_coords (all_nodes_of coincident_model)) 10 = Fin 0"
    by (simp add: all_nodes_coincident span_def x_coords_def)
  have "fround (1 * 300) = Fin 300" by (simp add: fround_small fl_300)
  then show ?thesis
    by (simp add: rec_h_def aspect_ratio_def Let_def x f_gt0_def fmul_def py_int_def)
qed

subsection \<open>Members of length zero\<close>

text \<open>
  C2. Rendering is claimed never to raise. For two joints at the same place joined by
  a member, every length is zero, the generator of line 87 is empty and \<open>min\<close> raises
  \<open>ValueError\<close>: the renderer returns neither a figure nor \<open>None\<close>.
\<close>

theorem draw_bridge_raises_on_zero_lengths:
  "draw_bridge (Parsed coincident_model) Missing = Inl ValueError"
  by (simp add: draw_bridge_def rec_h_coincident)
     (simp add: visual_scale_def min_len_def lengths_def all_nodes_coincident
       all_elements_coincident List.map_filter_simps member_length_def)

text \<open>
  The renderer raises in two cases only: the float product in the recommended height is
  \<open>inf\<close> or \<open>nan\<close>, or some member has both joints and no such member has a positive
  length. Without a model
  document it returns \<open>None\<close>, and without a result document no member has a result.
\<close>

lemma draw_bridge_raises_iff:
  "(\<exists>err. draw_bridge inp out = Inl err) \<longleftrightarrow>
     (\<exists>bd. inp = Parsed bd
         \<and> ((\<exists>err. rec_h (all_nodes_of bd) = Inl err)
            \<or> lengths (all_nodes_of bd) (all_elements_of bd) \<noteq> []
              \<and> filter (\<lambda>l. l > 0) (lengths (all_nodes_of bd) (all_elements_of bd)) = []))"
proof (cases inp)
  case (Parsed bd)
  have "lengths (all_nodes_of bd) [] = []" by (simp add: lengths_def List.map_filter_simps)
  then show ?thesis
    by (auto simp: Parsed draw_bridge_def visual_scale_def min_len_def Let_def
        split: sum.splits list.splits if_splits)
qed (simp_all add: draw_bridge_def)

lemma draw_bridge_without_model:
  "draw_bridge Missing out = Inr NoFigure" "draw_bridge Unreadable out = Inr NoFigure"
  by (simp_all add: draw_bridge_def)

lemma draw_bridge_without_results:
  assumes "out = Missing \<or> out = Unreadable"
  shows "simulation_results_of out = Map.empty" "node_results_of out = Map.empty"
    "legend_group_name (simulation_results_of out i) = ''Beam (Draft)''"
  using assms by (auto simp: simulation_results_of_def node_results_of_def legend_group_name_def)

text \<open>
  C8. The visual scale is claimed positive for every model, degenerate geometry
  included. For the same document no visual scale is derived at all: the computation
  of the minimal length raises.
\<close>

theorem visual_scale_raises_on_zero_lengths:
  "visual_scale (all_nodes_of coincident_model) (all_elements_of coincident_model) = Inl ValueError"
  by (simp add: visual_scale_def min_len_def lengths_def all_nodes_coincident
       all_elements_coincident List.map_filter_simps member_length_def)




lemma rec_h_range: "rec_h all_nodes = Inr h \<Longrightarrow> 500 \<le> h \<and> h \<le> 900"
  by (auto simp: rec_h_def split: sum.splits)

subsection \<open>Visual scale\<close>

text \<open>
  The formula of C5 as stated floors the whole product at 0.1. For one member of
  length 0.1 the renderer gives 0.075, the stated formula 0.1.
\<close>

theorem visual_scale_floor_counterexample:
  "min_len (all_nodes_of short_member_model) (all_elements_of short_member_model) = Inr (1/10)
   \<and> visual_scale (all_nodes_of short_member_model) (all_elements_of short_member_model)
       = Inr (3/40)
   \<and> visual_scale_spec (1/10) (all_elements_of short_member_model) = 1/10"
proof -
  have cf: "complexity_factor (all_elements_of short_member_model) = 1"
    by (simp add: all_elements_short complexity_factor_def)
  have am: "auto_mult (all_elements_of short_member_model) = 3/4"
    by (simp add: all_elements_short auto_mult_def)
  show ?thesis
    by (simp add: min_len_short visual_scale_def visual_scale_spec_def cf am)
qed

lemma fold_min_Min: "fold min rest (l::real) = Min (set (l # rest))"
  by (simp add: Min.set_eq_fold del: set_simps)

text \<open>
  C5, amended. Whenever the minimal member length is derived, the visual scale is
  the term \<open>min(MinMemberLength * 0.3, 0.6)\<close> floored at 0.1, and only then multiplied
  by the complexity factor and the density multiplier. The minimal member length is 2
  when no member has both joints, and else the smallest positive member length.
\<close>

theorem visual_scale_formula:
  assumes "min_len all_nodes all_elements = Inr ml"
  shows "visual_scale all_nodes all_elements =
           Inr (max 0.1 (min (ml * 0.3) 0.6) * complexity_factor all_elements * auto_mult all_elements)
     \<and> (lengths all_nodes all_elements = [] \<longrightarrow> ml = 2)
     \<and> (lengths all_nodes all_elements \<noteq> [] \<longrightarrow>
          ml = Min {l \<in> set (lengths all_nodes all_elements). 0 < l})"
proof -
  have 1: "visual_scale all_nodes all_elements =
           Inr (max 0.1 (min (ml * 0.3) 0.6) * complexity_factor all_elements * auto_mult all_elements)"
    using assms by (simp add: visual_scale_def)
  have 2: "lengths all_nodes all_elements = [] \<longrightarrow> ml = 2"
    using assms by (auto simp: min_len_def split: if_splits)
  have 3: "lengths all_nodes all_elements \<noteq> [] \<longrightarrow>
          ml = Min {l \<in> set (lengths all_nodes all_elements). 0 < l}"
  proof
    assume ne: "lengths all_nodes all_elements \<noteq> []"
    then have el: "all_elements \<noteq> []" by (auto simp: lengths_def List.map_filter_simps)
    from assms ne el obtain l rest where
      f: "filter (\<lambda>l. l > 0) (lengths all_nodes all_elements) = l # rest"
      and m: "ml = fold min rest l"
      by (auto simp: min_len_def split: list.splits)
    have "set (filter (\<lambda>l. l > 0) (lengths all_nodes all_elements))
            = {l \<in> set (lengths all_nodes all_elements). 0 < l}" by auto
    with f m show "ml = Min {l \<in> set (lengths all_nodes all_elements). 0 < l}"
      by (metis fold_min_Min)
  qed
  from 1 2 3 show ?thesis by blast
qed

theorem visual_scale_formula_witness:
  "min_len (all_nodes_of short_member_model) (all_elements_of short_member_model) = Inr (1/10)
   \<and> visual_scale (all_nodes_of short_member_model) (all_elements_of short_member_model) =
       Inr (max 0.1 (min ((1/10) * 0.3) 0.6) * complexity_factor (all_elements_of short_member_model)
              * auto_mult (all_elements_of short_member_model))"
  using visual_scale_formula[OF min_len_short] min_len_short by blast

subsection \<open>Recommended height\<close>

text \<open>
  The height of C6 as stated rounds. For a bounding box 400 wide and 1 high the
  float product of the aspect ratio and 300 is 0.75: the renderer gives 500, rounding
  gives 501.
\<close>

theorem rec_h_round_counterexample:
  "rec_h (all_nodes_of flat_model) = Inr 500 \<and> rec_h_spec (all_nodes_of flat_model) = 501"
proof -
  have a: "aspect_ratio_spec (all_nodes_of flat_model) = 1/400"
    by (simp add: all_nodes_flat aspect_ratio_spec_def span_spec_def x_coords_def y_coords_def
        joint_def)
  have r: "round (3/4::real) = 1" by (simp add: round_def floor_eq_iff)
  have "rec_h_spec (all_nodes_of flat_model) = 501"
    unfolding rec_h_spec_def a by (simp add: r)
  with rec_h_flat show ?thesis by simp
qed

text \<open>
  The truncation is of the float product. For a bounding box 15 wide and 11 high the
  real product is 220, the float product is just below it, and the height is 719.
\<close>

lemma rec_h_15_11: "rec_h [(1, joint 1 0 0), (2, joint 2 15 11)] = Inr 719"
proof -
  have f15: "fl 15 = 15" using fl_down[of 49 15] by simp
  have f11: "fl 11 = 11" using fl_down[of 49 11] by simp
  have x: "span (x_coords [(1, joint 1 0 0), (2, joint 2 15 11)]) 10 = Fin 15"
    by (simp add: span_def x_coords_def joint_def fround_small f15)
  have y: "span (y_coords [(1, joint 1 0 0), (2, joint 2 15 11)]) 5 = Fin 11"
    by (simp add: span_def y_coords_def joint_def fround_small f11)
  have "round_even (11 / 15 * 2 ^ 53) = 6605279453476727"
    by (simp add: round_even_def Let_def)
  with fl_down[of 53 "11/15"] have q: "fl (11/15) = 6605279453476727 / 2 ^ 53" by simp
  have "round_even (6605279453476727 / 2 ^ 53 * 300 * 2 ^ 45) = 7740561859543039"
    by (simp add: round_even_def Let_def)
  with fl_down[of 45 "6605279453476727 / 2 ^ 53 * 300"]
  have p: "fl (6605279453476727 / 2 ^ 53 * 300) = 7740561859543039 / 2 ^ 45" by simp
  have "fround (11 / 15) = Fin (6605279453476727 / 2 ^ 53)"
    using fround_small[of "11/15"] unfolding q by simp
  then have a: "aspect_ratio [(1, joint 1 0 0), (2, joint 2 15 11)] = Fin (6605279453476727 / 2 ^ 53)"
    unfolding aspect_ratio_def Let_def x y by (simp add: f_gt0_def fdiv_def)
  have m: "fround (6605279453476727 / 2 ^ 53 * 300) = Fin (7740561859543039 / 2 ^ 45)"
    using fround_small[of "6605279453476727 / 2 ^ 53 * 300"] unfolding p by simp
  have f: "\<lfloor>7740561859543039 / 2 ^ 45 :: real\<rfloor> = 219" by (simp add: floor_eq_iff)
  have "py_int (fmul (aspect_ratio [(1, joint 1 0 0), (2, joint 2 15 11)]) 300) = Inr 219"
    unfolding a fmul_def fval.case m py_int_def using f by simp
  then show ?thesis by (simp add: rec_h_def)
qed

lemma span_bounding_box:
  "cs \<noteq> [] \<Longrightarrow> span cs d = fround (Max (set cs) - Min (set cs))"
  by (cases cs) (simp_all add: span_def Max.set_eq_fold Min.set_eq_fold del: set_simps)

lemma fround_Fin_nonneg: "fround r = Fin x \<Longrightarrow> 0 \<le> r \<Longrightarrow> 0 \<le> x"
  using fl_nonneg[of r] by (auto simp: fround_def split: if_splits)

lemma span_nonneg: "span cs d = Fin x \<Longrightarrow> 0 \<le> d \<Longrightarrow> 0 \<le> x"
proof (cases "cs = []")
  case True
  assume "span cs d = Fin x" "0 \<le> d"
  with True show ?thesis by (simp add: span_def)
next
  case False
  assume s: "span cs d = Fin x"
  from False have "Min (set cs) \<le> Max (set cs)" by (simp add: Min_le_iff)
  then have "0 \<le> Max (set cs) - Min (set cs)" by simp
  with s False show ?thesis by (simp add: span_bounding_box fround_Fin_nonneg)
qed

lemma aspect_ratio_nonneg:
  assumes "aspect_ratio all_nodes = Fin a"
  shows "0 \<le> a"
proof (cases "f_gt0 (span (x_coords all_nodes) 10)")
  case False
  with assms show ?thesis by (simp add: aspect_ratio_def Let_def)
next
  case True
  with assms have d: "fdiv (span (y_coords all_nodes) 5) (span (x_coords all_nodes) 10) = Fin a"
    by (simp add: aspect_ratio_def Let_def)
  show ?thesis
  proof (cases "span (x_coords all_nodes) 10")
    case (Fin b)
    with True have b: "0 < b" by (simp add: f_gt0_def)
    from d Fin obtain y where y: "span (y_coords all_nodes) 5 = Fin y" and r: "fround (y / b) = Fin a"
      by (auto simp: fdiv_def split: fval.splits)
    from span_nonneg[OF y] have "0 \<le> y" by simp
    with b have "0 \<le> y / b" by simp
    with r show ?thesis by (rule fround_Fin_nonneg)
  next
    case PInf
    with d show ?thesis by (auto simp: fdiv_def split: fval.splits)
  next
    case NaNf
    with True show ?thesis by (simp add: f_gt0_def)
  qed
qed

text \<open>
  A bounding box 1 wide and \<open>2\<^sup>1\<^sup>0\<^sup>2\<^sup>3\<close> high has a finite aspect ratio whose float product
  with 300 is \<open>inf\<close>: \<open>int\<close> raises and no height is computed.
\<close>

lemma rec_h_overflow:
  "rec_h [(1, joint 1 0 0), (2, joint 2 1 (2 ^ 1023))] = Inl OverflowError"
proof -
  have x: "span (x_coords [(1, joint 1 0 0), (2, joint 2 1 (2 ^ 1023))]) 10 = Fin 1"
    by (simp add: span_def x_coords_def joint_def fround_small fl_1)
  have "fround (2 ^ 1023) = Fin (2 ^ 1023)"
    unfolding fround_def fl_huge using max_float_less(2) by simp
  then have y: "span (y_coords [(1, joint 1 0 0), (2, joint 2 1 (2 ^ 1023))]) 5 = Fin (2 ^ 1023)"
    by (simp add: span_def y_coords_def joint_def)
  have a: "aspect_ratio [(1, joint 1 0 0), (2, joint 2 1 (2 ^ 1023))] = Fin (2 ^ 1023)"
    unfolding aspect_ratio_def Let_def x y
    using \<open>fround (2 ^ 1023) = Fin (2 ^ 1023)\<close> by (simp add: f_gt0_def fdiv_def)
  have "fround (2 ^ 1023 * 300) = PInf"
    unfolding fround_def fl_huge_300 using max_float_less(1) by simp
  then show ?thesis unfolding rec_h_def a fmul_def py_int_def by simp
qed

lemma fmul_aspect_ratio_nonneg:
  assumes "fmul (aspect_ratio all_nodes) 300 = Fin p"
  shows "0 \<le> p"
proof -
  from assms obtain a where a: "aspect_ratio all_nodes = Fin a" and r: "fround (a * 300) = Fin p"
    by (auto simp: fmul_def split: fval.splits)
  have "0 \<le> a" using a by (rule aspect_ratio_nonneg)
  then have "0 \<le> a * 300" by simp
  with r show ?thesis by (rule fround_Fin_nonneg)
qed

text \<open>
  C6, amended. For a model with at least one joint, the aspect ratio is the float
  quotient of the height of the joints' bounding box by its width, and 1 when the width
  is not positive. With \<open>p\<close> the float product of the aspect ratio and 300, the height is
  \<open>500 + p\<close> with the fraction of \<open>p\<close> cut off, not rounded, clamped to 500 and 900, when
  \<open>p\<close> is finite; the renderer raises \<open>OverflowError\<close> when \<open>p\<close> is \<open>inf\<close> and \<open>ValueError\<close>
  when it is \<open>nan\<close>. The product is finite, and the height computed, whenever the aspect
  ratio \<open>a\<close> is finite and the double nearest to \<open>a * 300\<close> is in range; \<open>a\<close> is never
  negative.
\<close>

theorem rec_h_truncates:
  assumes "all_nodes \<noteq> []"
  shows "aspect_ratio all_nodes =
           (if f_gt0 (fround (Max (set (x_coords all_nodes)) - Min (set (x_coords all_nodes))))
            then fdiv (fround (Max (set (y_coords all_nodes)) - Min (set (y_coords all_nodes))))
                      (fround (Max (set (x_coords all_nodes)) - Min (set (x_coords all_nodes))))
            else Fin 1)
     \<and> rec_h all_nodes =
           (case fmul (aspect_ratio all_nodes) 300 of
              Fin p \<Rightarrow> Inr (max 500 (min 900 (500 + \<lfloor>p\<rfloor>)))
            | PInf \<Rightarrow> Inl OverflowError
            | NaNf \<Rightarrow> Inl ValueError)
     \<and> (\<forall>a. aspect_ratio all_nodes = Fin a \<and> fl (a * 300) \<le> max_float \<longrightarrow>
            0 \<le> a \<and> rec_h all_nodes = Inr (max 500 (min 900 (500 + \<lfloor>fl (a * 300)\<rfloor>))))"
proof -
  have x: "x_coords all_nodes \<noteq> []" and y: "y_coords all_nodes \<noteq> []"
    using assms by (simp_all add: x_coords_def y_coords_def)
  have 1: "aspect_ratio all_nodes =
           (if f_gt0 (fround (Max (set (x_coords all_nodes)) - Min (set (x_coords all_nodes))))
            then fdiv (fround (Max (set (y_coords all_nodes)) - Min (set (y_coords all_nodes))))
                      (fround (Max (set (x_coords all_nodes)) - Min (set (x_coords all_nodes))))
            else Fin 1)"
    by (simp add: aspect_ratio_def Let_def span_bounding_box[OF x] span_bounding_box[OF y])
  have 2: "rec_h all_nodes =
           (case fmul (aspect_ratio all_nodes) 300 of
              Fin p \<Rightarrow> Inr (max 500 (min 900 (500 + \<lfloor>p\<rfloor>)))
            | PInf \<Rightarrow> Inl OverflowError
            | NaNf \<Rightarrow> Inl ValueError)"
  proof (cases "fmul (aspect_ratio all_nodes) 300")
    case (Fin p)
    then have "0 \<le> p" by (rule fmul_aspect_ratio_nonneg)
    with Fin show ?thesis by (simp add: rec_h_def py_int_def)
  next
    case PInf
    then show ?thesis by (simp add: rec_h_def py_int_def)
  next
    case NaNf
    then show ?thesis by (simp add: rec_h_def py_int_def)
  qed
  have 3: "\<forall>a. aspect_ratio all_nodes = Fin a \<and> fl (a * 300) \<le> max_float \<longrightarrow>
            0 \<le> a \<and> rec_h all_nodes = Inr (max 500 (min 900 (500 + \<lfloor>fl (a * 300)\<rfloor>)))"
  proof (intro allI impI, elim conjE)
    fix a
    assume a: "aspect_ratio all_nodes = Fin a" and b: "fl (a * 300) \<le> max_float"
    then have "fmul (aspect_ratio all_nodes) 300 = Fin (fl (a * 300))"
      by (simp add: fmul_def fround_def)
    with 2 have "rec_h all_nodes = Inr (max 500 (min 900 (500 + \<lfloor>fl (a * 300)\<rfloor>)))" by simp
    moreover have "0 \<le> a" using a by (rule aspect_ratio_nonneg)
    ultimately show "0 \<le> a \<and> rec_h all_nodes = Inr (max 500 (min 900 (500 + \<lfloor>fl (a * 300)\<rfloor>)))"
      by simp
  qed
  from 1 2 3 show ?thesis by (intro conjI)
qed

theorem rec_h_truncates_witness:
  "all_nodes_of flat_model \<noteq> []
   \<and> aspect_ratio (all_nodes_of flat_model) = Fin (5764607523034235 / 2 ^ 61)
   \<and> fl (5764607523034235 / 2 ^ 61 * 300) = 3/4
   \<and> rec_h (all_nodes_of flat_model) = Inr 500"
proof -
  have ne: "all_nodes_of flat_model \<noteq> []" by (simp add: all_nodes_flat)
  have le: "fl (5764607523034235 / 2 ^ 61 * 300) \<le> max_float"
    unfolding fl_400th_300 using max_float_large by simp
  from rec_h_truncates[OF ne] aspect_ratio_flat le
  have "rec_h (all_nodes_of flat_model)
          = Inr (max 500 (min 900 (500 + \<lfloor>fl (5764607523034235 / 2 ^ 61 * 300)\<rfloor>)))"
    by blast
  then have "rec_h (all_nodes_of flat_model) = Inr 500" unfolding fl_400th_300 by simp
  with ne aspect_ratio_flat fl_400th_300 show ?thesis by simp
qed

subsection \<open>Traces and annotations added by the helpers\<close>






lemma traces_add_trace [simp]: "traces (add_trace t f) = traces f @ [t]"
  by (simp add: add_trace_def)

lemma annotations_add_trace [simp]: "annotations (add_trace t f) = annotations f"
  by (simp add: add_trace_def)

lemma traces_add_annotation [simp]: "traces (add_annotation a f) = traces f"
  by (simp add: add_annotation_def)

lemma annotations_add_annotation [simp]: "annotations (add_annotation a f) = annotations f @ [a]"
  by (simp add: add_annotation_def)

lemma traces_fold_add_trace [simp]: "traces (fold add_trace ts f) = traces f @ ts"
  by (induction ts arbitrary: f) simp_all

lemma annotations_fold_add_trace [simp]: "annotations (fold add_trace ts f) = annotations f"
  by (induction ts arbitrary: f) simp_all

lemma traces_fold_add_annotation [simp]: "traces (fold add_annotation as f) = traces f"
  by (induction as arbitrary: f) simp_all

lemma traces_add_trace_arrow:
  "traces (add_trace_arrow vs cf f sx sy ex ey color name grp txt off)
     = traces f @ arrow_traces vs cf sx sy ex ey color grp"
  by (simp add: add_trace_arrow_def Let_def split: option.splits)


lemma annotations_add_trace_arrow_None:
  "annotations (add_trace_arrow vs cf f sx sy ex ey color name grp None off) = annotations f"
  by (simp add: add_trace_arrow_def Let_def)



subsection \<open>Reaction arrows\<close>






subsection \<open>Members with a missing joint\<close>

lemma all_nodes_dangling: "all_nodes_of dangling_model = [(1, joint 1 0 0), (2, joint 2 4 0)]"
  by (simp add: all_nodes_of_def dangling_model_def get_list_def joint_def)

lemma all_elements_dangling: "all_elements_of dangling_model = seven_members @ [dangling_member]"
  by (simp add: all_elements_of_def dangling_model_def get_list_def)

text \<open>
  C4 as stated excludes a member with a missing joint from the metrics that depend on
  the member count. With seven members and an eighth whose end joint does not exist,
  the density multiplier is 0.65, where seven members give 0.75.
\<close>

theorem dangling_member_counted_counterexample:
  "map_of (all_nodes_of dangling_model) (e_end dangling_member) = None
   \<and> all_elements_of dangling_model = seven_members @ [dangling_member]
   \<and> auto_mult (all_elements_of dangling_model) = 13/20
   \<and> auto_mult seven_members = 3/4"
  by (simp add: all_nodes_dangling all_elements_dangling)
     (simp add: auto_mult_def seven_members_def dangling_member_def)

lemma lengths_append:
  "lengths all_nodes (es1 @ es2) = lengths all_nodes es1 @ lengths all_nodes es2"
  by (simp add: lengths_def List.map_filter_def)

lemma lengths_Nil: "lengths all_nodes [] = []"
  by (simp add: lengths_def List.map_filter_simps)

lemma lengths_dangling:
  assumes "map_of all_nodes (e_start el) = None \<or> map_of all_nodes (e_end el) = None"
  shows "lengths all_nodes (el # es) = lengths all_nodes es"
  using assms by (auto simp: lengths_def List.map_filter_simps split: option.splits)

lemma beam_step_dangling:
  assumes "map_of all_nodes (e_start el) = None \<or> map_of all_nodes (e_end el) = None"
  shows "beam_step vs cf all_nodes sim el st = st"
  using assms by (auto simp: beam_step_def split: option.splits)

lemma beam_label_step_dangling:
  assumes "map_of all_nodes (e_start el) = None \<or> map_of all_nodes (e_end el) = None"
  shows "beam_label_step cf all_nodes sim el f = f"
  using assms by (auto simp: beam_label_step_def split: option.splits)

text \<open>
  C4, amended. A member whose start or end joint does not exist adds no line, no
  arrow and no badge, and it does not enter the minimal member length: the figure and
  the minimal length are those of the model without it, at the same scale. It still
  counts in the number of members that the complexity factor and the density
  multiplier use.
\<close>

theorem dangling_member_skipped:
  assumes "map_of all_nodes (e_start el) = None \<or> map_of all_nodes (e_end el) = None"
  shows "beam_step vs cf all_nodes sim el st = st
     \<and> beam_label_step cf all_nodes sim el f = f
     \<and> draw_layers vs cf all_nodes (es1 @ el # es2) sim nr
         = draw_layers vs cf all_nodes (es1 @ es2) sim nr
     \<and> lengths all_nodes (es1 @ el # es2) = lengths all_nodes (es1 @ es2)
     \<and> min_len all_nodes (es1 @ el # es2) = min_len all_nodes (es1 @ es2)
     \<and> complexity_factor (es1 @ el # es2)
         = max 0.35 (sqrt (12 / max 12 (real (length (es1 @ es2)) + 1)))
     \<and> auto_mult (es1 @ el # es2)
         = (if length (es1 @ es2) + 1 > 20 then 0.55
            else if length (es1 @ es2) + 1 < 8 then 0.75 else 0.65)"
proof -
  have len: "lengths all_nodes (es1 @ el # es2) = lengths all_nodes (es1 @ es2)"
    by (simp add: lengths_append lengths_dangling[OF assms])
  have ml: "min_len all_nodes (es1 @ el # es2) = min_len all_nodes (es1 @ es2)"
  proof (cases "es1 @ es2 = []")
    case True
    then show ?thesis by (simp add: min_len_def lengths_dangling[OF assms] lengths_Nil)
  next
    case False
    then show ?thesis by (auto simp: min_len_def len lengths_Nil)
  qed
  have layers: "draw_layers vs cf all_nodes (es1 @ el # es2) sim nr
         = draw_layers vs cf all_nodes (es1 @ es2) sim nr"
    by (simp add: draw_layers_def beam_step_dangling[OF assms] beam_label_step_dangling[OF assms])
  have cfm: "complexity_factor (es1 @ el # es2)
         = max 0.35 (sqrt (12 / max 12 (real (length (es1 @ es2)) + 1)))"
    by (simp add: complexity_factor_def add.commute)
  have am: "auto_mult (es1 @ el # es2)
         = (if length (es1 @ es2) + 1 > 20 then 0.55
            else if length (es1 @ es2) + 1 < 8 then 0.75 else 0.65)"
    by (simp add: auto_mult_def)
  from beam_step_dangling[OF assms] beam_label_step_dangling[OF assms] layers len ml cfm am
  show ?thesis by blast
qed

theorem dangling_member_skipped_witness:
  "(map_of (all_nodes_of dangling_model) (e_start dangling_member) = None
      \<or> map_of (all_nodes_of dangling_model) (e_end dangling_member) = None)
   \<and> draw_layers (39/100) 1 (all_nodes_of dangling_model) (seven_members @ dangling_member # [])
        Map.empty Map.empty
      = draw_layers (39/100) 1 (all_nodes_of dangling_model) (seven_members @ []) Map.empty Map.empty
   \<and> min_len (all_nodes_of dangling_model) (seven_members @ dangling_member # [])
      = min_len (all_nodes_of dangling_model) (seven_members @ [])"
proof -
  have a: "map_of (all_nodes_of dangling_model) (e_start dangling_member) = None
      \<or> map_of (all_nodes_of dangling_model) (e_end dangling_member) = None"
    by (simp add: all_nodes_dangling dangling_member_def)
  from dangling_member_skipped[OF a] a show ?thesis by blast
qed

subsection \<open>Legend entries\<close>

lemma extI: "traces g = traces f @ ts \<Longrightarrow> list_all quiet ts \<Longrightarrow> ext f g"
  unfolding ext_def by blast

lemma ext_refl [simp]: "ext f f"
  by (simp add: ext_def)

lemma ext_trans: "ext f g \<Longrightarrow> ext g h \<Longrightarrow> ext f h"
  by (auto simp: ext_def)

lemma quiet_arrow_traces: "list_all quiet (arrow_traces vs cf sx sy ex ey color grp)"
  by (simp add: arrow_traces_def Let_def arrow_shape_def quiet_def legend_only_def)

lemma quiet_nan_arrow_traces:
  "list_all quiet (map nan_trace (arrow_traces vs cf sx sy ex ey color grp))"
  by (simp add: arrow_traces_def Let_def arrow_shape_def quiet_def legend_only_def nan_trace_def)

lemma ext_add_trace_arrow: "ext f (add_trace_arrow vs cf f sx sy ex ey color name grp txt off)"
  by (rule extI[OF traces_add_trace_arrow quiet_arrow_traces])

lemma ext_fold_arrows:
  "ext f (fold (\<lambda>(t_x, t_y, h_x, h_y) g.
             add_trace_arrow vs cf g t_x t_y h_x h_y color name grp txt off) ps f)"
proof (induction ps arbitrary: f)
  case Nil
  show ?case by simp
next
  case (Cons p ps)
  obtain a b c d where p: "p = (a, b, c, d)" by (cases p) auto
  have "ext f (add_trace_arrow vs cf f a b c d color name grp txt off)"
    by (rule ext_add_trace_arrow)
  from ext_trans[OF this Cons.IH] show ?case by (simp add: p)
qed

lemma ext_draw_internal_force:
  "ext f (draw_internal_force vs cf sx sy ex ey force_value f)"
proof -
  obtain c lg where cg: "arrow_color_group force_value = (c, lg)" by (cases "arrow_color_group force_value")
  show ?thesis
  proof (cases "sqrt ((ex - sx)\<^sup>2 + (ey - sy)\<^sup>2) = 0")
    case True
    define X where "X = map nan_trace (arrow_traces vs cf 0 0 0 0 c lg)"
    have q: "list_all quiet (X @ X)"
      using quiet_nan_arrow_traces[of vs cf 0 0 0 0 c lg] by (simp add: X_def)
    have "draw_internal_force vs cf sx sy ex ey force_value f = fold add_trace X (fold add_trace X f)"
      unfolding draw_internal_force_def cg X_def using True by simp
    then have "traces (draw_internal_force vs cf sx sy ex ey force_value f) = traces f @ X @ X"
      by simp
    from extI[OF this q] show ?thesis .
  next
    case False
    have "draw_internal_force vs cf sx sy ex ey force_value f =
            fold (\<lambda>(t_x, t_y, h_x, h_y) g.
                    add_trace_arrow vs cf g t_x t_y h_x h_y c ''Internal Force'' lg None 0.45)
              (internal_force_arrows vs sx sy ex ey force_value) f"
      by (simp only: draw_internal_force_def cg prod.case False if_False Let_def)
    then show ?thesis by (simp only: ext_fold_arrows)
  qed
qed

lemma ext_load_step: "ext f (load_step vs cf nd f)"
  by (simp add: load_step_def Let_def ext_add_trace_arrow)

lemma ext_reaction_step: "ext f (reaction_step vs cf nr node_id nd f)"
  by (simp add: reaction_step_def Let_def ext_add_trace_arrow split: option.splits prod.splits)

lemma keys_of_Nil [simp]: "keys_of key [] = {}"
  by (simp add: keys_of_def)

lemma keys_of_Cons:
  "keys_of key (x # xs) = (case key x of None \<Rightarrow> keys_of key xs | Some N \<Rightarrow> insert N (keys_of key xs))"
  by (auto simp: keys_of_def split: option.splits)

lemma shown_append [simp]: "shown (xs @ ys) = shown xs @ shown ys"
  by (simp add: shown_def)

lemma shown_quiet: "list_all quiet ts \<Longrightarrow> shown ts = []"
  by (induction ts) (simp_all add: shown_def quiet_def)

lemma shown_ext: "ext f g \<Longrightarrow> shown (traces g) = shown (traces f)"
  by (auto simp: ext_def shown_quiet)

lemma legend_only_quiet: "list_all quiet ts \<Longrightarrow> filter legend_only ts = []"
  by (induction ts) (simp_all add: quiet_def)

lemma legend_only_ext: "ext f g \<Longrightarrow> filter legend_only (traces g) = filter legend_only (traces f)"
  by (auto simp: ext_def legend_only_quiet)

lemma unnamed_hidden_quiet: "list_all quiet ts \<Longrightarrow> list_all unnamed_hidden ts"
  by (induction ts) (simp_all add: quiet_def unnamed_hidden_def)

lemma unnamed_hidden_ext:
  "ext f g \<Longrightarrow> list_all unnamed_hidden (traces f) \<Longrightarrow> list_all unnamed_hidden (traces g)"
  by (auto simp: ext_def unnamed_hidden_quiet)

lemma legend_fold_shown:
  assumes step: "\<And>x st. legend_step (key x) st (step x st)"
  shows "fold step xs (f, ls) = (g, ls') \<Longrightarrow>
         ls' = ls \<union> keys_of key xs \<and>
         (\<exists>S. shown (traces g) = shown (traces f) @ S \<and> distinct S
               \<and> set S = Some ` (keys_of key xs - ls))"
proof (induction xs arbitrary: f ls)
  case Nil
  then show ?case by simp
next
  case (Cons x xs)
  obtain f1 ls1 where s1: "step x (f, ls) = (f1, ls1)" by (cases "step x (f, ls)")
  with Cons.prems have rest: "fold step xs (f1, ls1) = (g, ls')" by simp
  from Cons.IH[OF rest] obtain S1 where
    l': "ls' = ls1 \<union> keys_of key xs"
    and S1: "shown (traces g) = shown (traces f1) @ S1" "distinct S1"
            "set S1 = Some ` (keys_of key xs - ls1)"
    by blast
  have st: "legend_step (key x) (f, ls) (f1, ls1)" using step[of x "(f, ls)"] s1 by simp
  show ?case
  proof (cases "key x")
    case None
    with st have "ext f f1" "ls1 = ls" by (simp_all add: legend_step_def)
    with l' S1 None show ?thesis by (auto simp: shown_ext keys_of_Cons)
  next
    case (Some N)
    with st obtain T where ls1: "ls1 = insert N ls"
      and T: "tr_name T = Some N" "tr_showlegend T = Some (N \<notin> ls)" "\<not> legend_only T"
      and e: "ext (add_trace T f) f1"
      by (auto simp: legend_step_def)
    have sh: "shown (traces f1) = shown (traces f) @ (if N \<in> ls then [] else [Some N])"
      using shown_ext[OF e] T by (simp add: shown_def)
    define S where "S = (if N \<in> ls then [] else [Some N]) @ S1"
    have 1: "shown (traces g) = shown (traces f) @ S" using S1(1) sh by (simp add: S_def)
    have 2: "distinct S" using S1(2,3) ls1 by (auto simp: S_def)
    have 3: "set S = Some ` (keys_of key (x # xs) - ls)"
      using S1(3) ls1 Some by (auto simp: S_def keys_of_Cons)
    have 4: "ls' = ls \<union> keys_of key (x # xs)" using l' ls1 Some by (auto simp: keys_of_Cons)
    from 1 2 3 4 show ?thesis by blast
  qed
qed

lemma legend_fold_keep:
  assumes step: "\<And>x st. legend_step (key x) st (step x st)"
  shows "fold step xs (f, ls) = (g, ls') \<Longrightarrow>
         filter legend_only (traces g) = filter legend_only (traces f)
         \<and> (list_all unnamed_hidden (traces f) \<longrightarrow> list_all unnamed_hidden (traces g))"
proof (induction xs arbitrary: f ls)
  case Nil
  then show ?case by simp
next
  case (Cons x xs)
  obtain f1 ls1 where s1: "step x (f, ls) = (f1, ls1)" by (cases "step x (f, ls)")
  with Cons.prems have rest: "fold step xs (f1, ls1) = (g, ls')" by simp
  note IH = Cons.IH[OF rest]
  have st: "legend_step (key x) (f, ls) (f1, ls1)" using step[of x "(f, ls)"] s1 by simp
  have "filter legend_only (traces f1) = filter legend_only (traces f)
        \<and> (list_all unnamed_hidden (traces f) \<longrightarrow> list_all unnamed_hidden (traces f1))"
  proof (cases "key x")
    case None
    with st have "ext f f1" by (simp add: legend_step_def)
    then show ?thesis using legend_only_ext unnamed_hidden_ext by blast
  next
    case (Some N)
    with st obtain T where T: "tr_name T = Some N" "\<not> legend_only T"
      and e: "ext (add_trace T f) f1"
      by (auto simp: legend_step_def)
    from legend_only_ext[OF e] T have a: "filter legend_only (traces f1) = filter legend_only (traces f)"
      by simp
    have "list_all unnamed_hidden (traces f) \<Longrightarrow> list_all unnamed_hidden (traces (add_trace T f))"
      using T by (simp add: unnamed_hidden_def)
    with unnamed_hidden_ext[OF e] a show ?thesis by blast
  qed
  with IH show ?case by simp
qed

lemma keys_of_beam_key:
  "keys_of (beam_key all_nodes sim) es = beam_classes_present all_nodes sim es"
  by (auto simp: keys_of_def beam_key_def beam_classes_present_def image_iff split: if_splits)

lemma keys_of_support_key: "keys_of support_key all_nodes = support_types_present all_nodes"
  by (auto simp: keys_of_def support_key_def support_types_present_def image_iff split: if_splits)

lemma legend_group_name_in: "legend_group_name res \<in> beam_legend_names"
  by (simp add: legend_group_name_def beam_legend_names_def split: option.splits)

lemma beam_classes_subset: "beam_classes_present all_nodes sim es \<subseteq> beam_legend_names"
  by (auto simp: beam_classes_present_def legend_group_name_in)

lemma beam_step_legend_step:
  "legend_step (beam_key all_nodes sim el) st (beam_step vs cf all_nodes sim el st)"
proof -
  obtain f ls where st: "st = (f, ls)" by (cases st)
  show ?thesis
  proof (cases "resolvable all_nodes el")
    case False
    then have "beam_step vs cf all_nodes sim el st = st"
      by (auto simp: resolvable_def beam_step_def split: option.splits)
    with False show ?thesis by (simp add: legend_step_def beam_key_def)
  next
    case True
    then obtain s t where s: "map_of all_nodes (e_start el) = Some s"
      and t: "map_of all_nodes (e_end el) = Some t"
      by (auto simp: resolvable_def)
    define N where "N = legend_group_name (sim (e_id el))"
    define T where "T = beam_line s t el (sim (e_id el)) (N \<notin> ls)"
    define g where "g = (case sim (e_id el) of
                          None \<Rightarrow> add_trace T f
                        | Some beam_result \<Rightarrow>
                            if \<bar>er_force beam_result\<bar> > 0.1
                            then draw_internal_force vs cf (n_x s) (n_y s) (n_x t) (n_y t)
                                   (er_force beam_result) (add_trace T f)
                            else add_trace T f)"
    have step: "beam_step vs cf all_nodes sim el st = (g, insert N ls)"
      unfolding g_def T_def N_def by (simp add: beam_step_def s t st Let_def)
    have e: "ext (add_trace T f) g"
      by (simp add: g_def ext_draw_internal_force split: option.splits)
    have T: "tr_name T = Some N" "tr_showlegend T = Some (N \<notin> ls)" "\<not> legend_only T"
      by (simp_all add: T_def N_def beam_line_def legend_only_def split: prod.splits)
    have "beam_key all_nodes sim el = Some N" using True by (simp add: beam_key_def N_def)
    with step e T show ?thesis unfolding legend_step_def st by auto
  qed
qed

lemma node_step_legend_step:
  "legend_step (support_key item) st (node_step vs cf nr item st)"
proof -
  obtain f sl where st: "st = (f, sl)" by (cases st)
  obtain k nd where item: "item = (k, nd)" by (cases item)
  obtain f1 sl1 where s1: "support_step vs nd (f, sl) = (f1, sl1)"
    by (cases "support_step vs nd (f, sl)")
  define g where "g = reaction_step vs cf nr k nd (load_step vs cf nd f1)"
  have step: "node_step vs cf nr item st = (g, sl1)"
    by (simp add: node_step_def item st s1 g_def Let_def)
  have e: "ext f1 g"
    unfolding g_def using ext_trans[OF ext_load_step ext_reaction_step] .
  show ?thesis
  proof (cases "support_type_of nd = ''Free Joint''")
    case True
    with s1 have "f1 = f" "sl1 = sl" by (simp_all add: support_step_def Let_def)
    with True e step show ?thesis by (simp add: legend_step_def support_key_def item st)
  next
    case False
    define N where "N = support_type_of nd"
    define T where "T = support_trace vs nd (N \<notin> sl)"
    from False s1 have f1: "f1 = add_trace T f" and sl1: "sl1 = insert N sl"
      by (auto simp: support_step_def Let_def T_def N_def)
    have T: "tr_name T = Some N" "tr_showlegend T = Some (N \<notin> sl)" "\<not> legend_only T"
      by (simp_all add: T_def N_def support_trace_def legend_only_def Let_def split: prod.splits)
    have "support_key item = Some N" using False by (simp add: support_key_def item N_def)
    with step e T f1 sl1 show ?thesis unfolding legend_step_def st by auto
  qed
qed

lemma traces_beam_label_fold:
  "traces (fold (beam_label_step cf all_nodes sim) es f) = traces f"
  by (induction es arbitrary: f) (simp_all add: beam_label_step_def split: option.splits)

lemma draw_layers_traces:
  "\<exists>f1 ls f3 sl.
      fold (beam_step vs cf all_nodes sim) es (\<lparr>traces = [], annotations = []\<rparr>, {}) = (f1, ls)
    \<and> fold (node_step vs cf nr) all_nodes
         (fold add_trace (map legend_entry force_legend) f1, {}) = (f3, sl)
    \<and> traces (draw_layers vs cf all_nodes es sim nr) = traces f3 @ [joints_trace vs all_nodes]"
proof -
  obtain f1 ls where 1:
    "fold (beam_step vs cf all_nodes sim) es (\<lparr>traces = [], annotations = []\<rparr>, {}) = (f1, ls)"
    by (cases "fold (beam_step vs cf all_nodes sim) es (\<lparr>traces = [], annotations = []\<rparr>, {})")
  obtain f3 sl where 2:
    "fold (node_step vs cf nr) all_nodes
         (fold add_trace (map legend_entry force_legend) f1, {}) = (f3, sl)"
    by (cases "fold (node_step vs cf nr) all_nodes
         (fold add_trace (map legend_entry force_legend) f1, {})")
  have "traces (draw_layers vs cf all_nodes es sim nr) = traces f3 @ [joints_trace vs all_nodes]"
    by (simp add: draw_layers_def Let_def 1 2 traces_beam_label_fold)
  with 1 2 show ?thesis by blast
qed

lemma draw_bridge_Figure:
  assumes "draw_bridge inp out = Inr (Figure f h)"
  shows "\<exists>bd vs. inp = Parsed bd
      \<and> visual_scale (all_nodes_of bd) (all_elements_of bd) = Inr vs
      \<and> f = draw_layers vs (complexity_factor (all_elements_of bd)) (all_nodes_of bd)
               (all_elements_of bd) (simulation_results_of out) (node_results_of out)
      \<and> rec_h (all_nodes_of bd) = Inr h"
  using assms by (auto simp: draw_bridge_def Let_def split: json_file.splits sum.splits)

lemma shown_force_legend:
  "shown (map legend_entry force_legend) =
     [Some ''Tension Force'', Some ''Compression Force'', Some ''Load Force'', Some ''Reaction Force'']"
  by (simp add: shown_def force_legend_def legend_entry_def)

lemma legend_draw_layers:
  "\<exists>Sb Sn. legend (draw_layers vs cf all_nodes es sim nr)
              = Sb @ shown (map legend_entry force_legend) @ Sn
     \<and> distinct Sb \<and> set Sb = Some ` beam_classes_present all_nodes sim es
     \<and> distinct Sn \<and> set Sn = Some ` support_types_present all_nodes"
proof -
  from draw_layers_traces[of vs cf all_nodes sim es nr] obtain f1 ls f3 sl where
    1: "fold (beam_step vs cf all_nodes sim) es (\<lparr>traces = [], annotations = []\<rparr>, {}) = (f1, ls)"
    and 2: "fold (node_step vs cf nr) all_nodes
         (fold add_trace (map legend_entry force_legend) f1, {}) = (f3, sl)"
    and 3: "traces (draw_layers vs cf all_nodes es sim nr) = traces f3 @ [joints_trace vs all_nodes]"
    by blast
  from legend_fold_shown[of "beam_key all_nodes sim" "beam_step vs cf all_nodes sim", OF beam_step_legend_step 1]
  obtain Sb where Sb: "shown (traces f1) = Sb" "distinct Sb"
      "set Sb = Some ` beam_classes_present all_nodes sim es"
    by (auto simp: keys_of_beam_key shown_def)
  from legend_fold_shown[of support_key "node_step vs cf nr", OF node_step_legend_step 2]
  obtain Sn where Sn: "shown (traces f3) = shown (traces f1) @ shown (map legend_entry force_legend) @ Sn"
      "distinct Sn" "set Sn = Some ` support_types_present all_nodes"
    by (auto simp: keys_of_support_key)
  have leg: "legend (draw_layers vs cf all_nodes es sim nr)
           = Sb @ shown (map legend_entry force_legend) @ Sn"
    using 3 Sn(1) Sb(1) by (simp add: legend_def) (simp add: shown_def joints_trace_def)
  show ?thesis
    by (rule exI[of _ Sb], rule exI[of _ Sn]) (simp only: leg Sb(2,3) Sn(2,3) simp_thms)
qed

lemma legend_parts_distinct:
  assumes "\<forall>item \<in> set all_nodes. support_type_of (snd item) \<notin> beam_legend_names \<union> force_legend_names"
    and "distinct Sb" "set Sb = Some ` beam_classes_present all_nodes sim es"
    and "distinct Sn" "set Sn = Some ` support_types_present all_nodes"
  shows "distinct (Sb @ shown (map legend_entry force_legend) @ Sn)"
proof -
  have d1: "beam_legend_names \<inter> force_legend_names = {}"
    by (simp add: beam_legend_names_def force_legend_names_def)
  have d2: "support_types_present all_nodes \<inter> (beam_legend_names \<union> force_legend_names) = {}"
    using assms(1) by (auto simp: support_types_present_def)
  have fs: "set (shown (map legend_entry force_legend)) = Some ` force_legend_names"
    by (simp add: shown_force_legend force_legend_names_def)
  have fd: "distinct (shown (map legend_entry force_legend))"
    by (simp add: shown_force_legend)
  show ?thesis
    using assms(2-5) fs fd d1 d2 beam_classes_subset[of all_nodes sim es]
    by (auto simp: disjoint_iff)
qed

text \<open>
  C9. In the figure of one render the legend is three runs of names, each without a
  repetition, whatever the numbers of members, supports and arrows: one entry for
  each class that some resolvable member has, then the four force kinds, then one
  entry for each support type that some joint has. Both legend sets start empty in
  every call, so every class and every support type present is listed. When no
  support type is named like a member class or a force kind, as in the data model,
  all names of the legend are distinct.
\<close>

theorem legend_entries_once:
  assumes "draw_bridge (Parsed bd) out = Inr (Figure f h)"
  shows "\<exists>Sb Sn.
       legend f = Sb @ [Some ''Tension Force'', Some ''Compression Force'', Some ''Load Force'',
                        Some ''Reaction Force''] @ Sn
     \<and> distinct Sb
     \<and> set Sb = Some ` beam_classes_present (all_nodes_of bd) (simulation_results_of out)
                        (all_elements_of bd)
     \<and> distinct Sn
     \<and> set Sn = Some ` support_types_present (all_nodes_of bd)
     \<and> ((\<forall>item \<in> set (all_nodes_of bd).
            support_type_of (snd item) \<notin> beam_legend_names \<union> force_legend_names)
          \<longrightarrow> distinct (legend f))"
proof -
  from draw_bridge_Figure[OF assms] obtain vs where
    f: "f = draw_layers vs (complexity_factor (all_elements_of bd)) (all_nodes_of bd)
               (all_elements_of bd) (simulation_results_of out) (node_results_of out)"
    by auto
  from legend_draw_layers[of vs "complexity_factor (all_elements_of bd)" "all_nodes_of bd"
      "all_elements_of bd" "simulation_results_of out" "node_results_of out"]
  obtain Sb Sn where
    l: "legend f = Sb @ shown (map legend_entry force_legend) @ Sn"
    and p: "distinct Sb"
      "set Sb = Some ` beam_classes_present (all_nodes_of bd) (simulation_results_of out)
                        (all_elements_of bd)"
      "distinct Sn" "set Sn = Some ` support_types_present (all_nodes_of bd)"
    unfolding f by blast
  have "(\<forall>item \<in> set (all_nodes_of bd).
            support_type_of (snd item) \<notin> beam_legend_names \<union> force_legend_names)
          \<longrightarrow> distinct (legend f)"
    unfolding l using legend_parts_distinct[OF _ p] by blast
  with l p show ?thesis unfolding shown_force_legend by blast
qed

text \<open>
  C10. In every figure the legend-only traces are exactly the four force entries,
  Tension, Compression, Load and Reaction, once each and in this order, whether or
  not any arrow is drawn; they leave \<open>showlegend\<close> at its default. Every unnamed trace of
  the figure, so every trace of an arrow, is hidden from the legend.
\<close>

theorem force_legend_entries_always:
  assumes "draw_bridge inp out = Inr (Figure f h)"
  shows "filter legend_only (traces f) = map legend_entry force_legend
     \<and> map tr_name (map legend_entry force_legend) =
         [Some ''Tension Force'', Some ''Compression Force'', Some ''Load Force'',
          Some ''Reaction Force'']
     \<and> list_all (\<lambda>t. tr_showlegend t = None) (map legend_entry force_legend)
     \<and> list_all unnamed_hidden (traces f)
     \<and> list_all quiet (arrow_traces vs cf sx sy ex ey color grp)"
proof -
  from draw_bridge_Figure[OF assms] obtain bd v where
    f: "f = draw_layers v (complexity_factor (all_elements_of bd)) (all_nodes_of bd)
               (all_elements_of bd) (simulation_results_of out) (node_results_of out)"
    by auto
  from draw_layers_traces[of v "complexity_factor (all_elements_of bd)" "all_nodes_of bd"
      "simulation_results_of out" "all_elements_of bd" "node_results_of out"]
  obtain f1 ls f3 sl where
    1: "fold (beam_step v (complexity_factor (all_elements_of bd)) (all_nodes_of bd)
               (simulation_results_of out)) (all_elements_of bd)
               (\<lparr>traces = [], annotations = []\<rparr>, {}) = (f1, ls)"
    and 2: "fold (node_step v (complexity_factor (all_elements_of bd)) (node_results_of out))
              (all_nodes_of bd) (fold add_trace (map legend_entry force_legend) f1, {}) = (f3, sl)"
    and 3: "traces f = traces f3 @ [joints_trace v (all_nodes_of bd)]"
    unfolding f by blast
  from legend_fold_keep[OF beam_step_legend_step 1]
  have b: "filter legend_only (traces f1) = []" "list_all unnamed_hidden (traces f1)"
    by simp_all
  have e: "filter legend_only (map legend_entry force_legend) = map legend_entry force_legend"
    "list_all unnamed_hidden (map legend_entry force_legend)"
    by (simp_all add: force_legend_def legend_entry_def legend_only_def unnamed_hidden_def)
  from legend_fold_keep[OF node_step_legend_step 2] b e
  have n: "filter legend_only (traces f3) = map legend_entry force_legend"
    "list_all unnamed_hidden (traces f3)"
    by simp_all
  have j: "\<not> legend_only (joints_trace v (all_nodes_of bd))"
    "unnamed_hidden (joints_trace v (all_nodes_of bd))"
    by (auto simp: joints_trace_def legend_only_def unnamed_hidden_def split: prod.splits)
  have A: "filter legend_only (traces f) = map legend_entry force_legend"
    using 3 n(1) j(1) by simp
  have B: "list_all unnamed_hidden (traces f)" using 3 n(2) j(2) by simp
  have C: "map tr_name (map legend_entry force_legend) =
         [Some ''Tension Force'', Some ''Compression Force'', Some ''Load Force'',
          Some ''Reaction Force'']"
    by (simp add: force_legend_def legend_entry_def)
  have D: "list_all (\<lambda>t. tr_showlegend t = None) (map legend_entry force_legend)"
    by (simp add: force_legend_def legend_entry_def)
  from A B C D quiet_arrow_traces show ?thesis by blast
qed

lemma min_len_defined:
  assumes "l \<in> set (lengths all_nodes all_elements)" and "0 < l"
  shows "\<exists>ml. min_len all_nodes all_elements = Inr ml"
proof -
  from assms have "l \<in> set (filter (\<lambda>l. l > 0) (lengths all_nodes all_elements))" by simp
  then have "filter (\<lambda>l. l > 0) (lengths all_nodes all_elements) \<noteq> []" by (metis empty_iff empty_set)
  then show ?thesis by (auto simp: min_len_def split: list.splits)
qed

lemma draw_bridge_defined:
  assumes "min_len (all_nodes_of bd) (all_elements_of bd) = Inr ml"
    and "rec_h (all_nodes_of bd) = Inr h"
  shows "\<exists>f h. draw_bridge (Parsed bd) out = Inr (Figure f h)"
  using assms by (simp add: draw_bridge_def visual_scale_def Let_def)

lemma all_nodes_truss:
  "all_nodes_of truss_model =
     [(1, \<lparr>n_id = 1, n_x = 0, n_y = 0, n_type = Some ''Pinned Support'', n_loadX = Some 0, n_loadY = Some 0\<rparr>),
      (2, \<lparr>n_id = 2, n_x = 4, n_y = 0, n_type = Some ''Free Joint'', n_loadX = Some 0, n_loadY = Some (- 50000)\<rparr>),
      (3, \<lparr>n_id = 3, n_x = 8, n_y = 0, n_type = Some ''Roller Support'', n_loadX = Some 0, n_loadY = Some 0\<rparr>),
      (4, \<lparr>n_id = 4, n_x = 4, n_y = 4, n_type = Some ''Free Joint'', n_loadX = Some 0, n_loadY = Some 0\<rparr>)]"
  by (simp add: all_nodes_of_def truss_model_def get_list_def)

lemma all_elements_truss:
  "all_elements_of truss_model =
        [\<lparr>e_id = 1, e_start = 1, e_end = 2\<rparr>, \<lparr>e_id = 2, e_start = 2, e_end = 3\<rparr>,
         \<lparr>e_id = 3, e_start = 1, e_end = 4\<rparr>, \<lparr>e_id = 4, e_start = 2, e_end = 4\<rparr>,
         \<lparr>e_id = 5, e_start = 4, e_end = 3\<rparr>]"
  by (simp add: all_elements_of_def truss_model_def get_list_def)

lemma rec_h_truss: "rec_h (all_nodes_of truss_model) = Inr 650"
proof -
  have x: "span (x_coords (all_nodes_of truss_model)) 10 = Fin 8"
    by (simp add: all_nodes_truss span_def x_coords_def fround_small fl_8)
  have y: "span (y_coords (all_nodes_of truss_model)) 5 = Fin 4"
    by (simp add: all_nodes_truss span_def y_coords_def fround_small fl_4)
  have "fround (4 / 8) = Fin (1/2)" by (simp add: fround_small fl_half)
  then have a: "aspect_ratio (all_nodes_of truss_model) = Fin (1/2)"
    by (simp add: aspect_ratio_def Let_def x y f_gt0_def fdiv_def)
  have "fround (1 / 2 * 300) = Fin 150" by (simp add: fround_small fl_150)
  then show ?thesis by (simp add: rec_h_def a fmul_def py_int_def)
qed

lemma draw_bridge_truss:
  "\<exists>f h. draw_bridge (Parsed truss_model) out = Inr (Figure f h)"
proof -
  have "sqrt 16 \<in> set (lengths (all_nodes_of truss_model) (all_elements_of truss_model))"
    by (simp add: all_nodes_truss all_elements_truss lengths_def List.map_filter_simps member_length_def)
  moreover have "(0::real) < sqrt 16" by simp
  ultimately obtain ml where "min_len (all_nodes_of truss_model) (all_elements_of truss_model) = Inr ml"
    using min_len_defined by blast
  then show ?thesis using rec_h_truss by (rule draw_bridge_defined)
qed

lemma types_truss:
  "\<forall>item \<in> set (all_nodes_of truss_model).
           support_type_of (snd item) \<notin> beam_legend_names \<union> force_legend_names"
  by (simp add: all_nodes_truss support_type_of_def beam_legend_names_def force_legend_names_def)

lemma classes_truss:
  "beam_classes_present (all_nodes_of truss_model) (simulation_results_of (Parsed truss_results))
     (all_elements_of truss_model) = {''Beam (Safe)'', ''Beam (Caution)'', ''Beam (Unsafe)''}"
proof -
  have "simulation_results_of (Parsed truss_results) =
          [1 \<mapsto> \<lparr>er_id = 1, er_force = 25000, er_safety = 15\<rparr>,
           2 \<mapsto> \<lparr>er_id = 2, er_force = 25000, er_safety = 15\<rparr>,
           3 \<mapsto> \<lparr>er_id = 3, er_force = - 35355, er_safety = 3/2\<rparr>,
           4 \<mapsto> \<lparr>er_id = 4, er_force = 50000, er_safety = 3/4\<rparr>,
           5 \<mapsto> \<lparr>er_id = 5, er_force = - 35355, er_safety = 3/2\<rparr>]"
    by (simp add: simulation_results_of_def truss_results_def get_list_def)
  then show ?thesis
    by (simp add: beam_classes_present_def all_nodes_truss all_elements_truss resolvable_def
          legend_group_name_def insert_commute)
qed

lemma supports_truss:
  "support_types_present (all_nodes_of truss_model) = {''Pinned Support'', ''Roller Support''}"
  by (simp add: support_types_present_def all_nodes_truss support_type_of_def)

theorem legend_entries_once_witness:
  "\<exists>f h. draw_bridge (Parsed truss_model) (Parsed truss_results) = Inr (Figure f h)
         \<and> distinct (legend f)
         \<and> set (legend f) =
             Some ` ({''Beam (Safe)'', ''Beam (Caution)'', ''Beam (Unsafe)''} \<union> force_legend_names
                     \<union> {''Pinned Support'', ''Roller Support''})"
proof -
  from draw_bridge_truss obtain f h where
    d: "draw_bridge (Parsed truss_model) (Parsed truss_results) = Inr (Figure f h)" by blast
  from legend_entries_once[OF d] obtain Sb Sn where
    l: "legend f = Sb @ [Some ''Tension Force'', Some ''Compression Force'', Some ''Load Force'',
                        Some ''Reaction Force''] @ Sn"
    and Sb: "set Sb = Some ` beam_classes_present (all_nodes_of truss_model)
                         (simulation_results_of (Parsed truss_results)) (all_elements_of truss_model)"
    and Sn: "set Sn = Some ` support_types_present (all_nodes_of truss_model)"
    and dist: "(\<forall>item \<in> set (all_nodes_of truss_model).
            support_type_of (snd item) \<notin> beam_legend_names \<union> force_legend_names)
          \<longrightarrow> distinct (legend f)"
    by blast
  from dist types_truss have 1: "distinct (legend f)" by (rule mp)
  have "set (legend f) = set Sb \<union> Some ` force_legend_names \<union> set Sn"
    unfolding l by (simp add: force_legend_names_def Un_commute Un_left_commute insert_commute)
  then have 2: "set (legend f) =
             Some ` ({''Beam (Safe)'', ''Beam (Caution)'', ''Beam (Unsafe)''} \<union> force_legend_names
                     \<union> {''Pinned Support'', ''Roller Support''})"
    by (simp only: Sb Sn classes_truss supports_truss image_Un)
  from d 1 2 show ?thesis by (intro exI conjI)
qed

lemma draw_bridge_flat:
  "\<exists>f h. draw_bridge (Parsed flat_model) Missing = Inr (Figure f h)"
proof -
  have e: "all_elements_of flat_model = [\<lparr>e_id = 1, e_start = 1, e_end = 2\<rparr>]"
    by (simp add: all_elements_of_def flat_model_def get_list_def)
  have "sqrt 160001 \<in> set (lengths (all_nodes_of flat_model) (all_elements_of flat_model))"
    by (simp add: all_nodes_flat e lengths_def List.map_filter_simps member_length_def joint_def)
  moreover have "(0::real) < sqrt 160001" by simp
  ultimately obtain ml where "min_len (all_nodes_of flat_model) (all_elements_of flat_model) = Inr ml"
    using min_len_defined by blast
  then show ?thesis using rec_h_flat by (rule draw_bridge_defined)
qed

theorem force_legend_entries_always_witness:
  "\<exists>f h. draw_bridge (Parsed flat_model) Missing = Inr (Figure f h)
         \<and> filter legend_only (traces f) = map legend_entry force_legend"
proof -
  from draw_bridge_flat obtain f h where
    d: "draw_bridge (Parsed flat_model) Missing = Inr (Figure f h)" by blast
  from force_legend_entries_always[OF d] d show ?thesis by blast
qed

subsection \<open>Safety classification\<close>

lemma label_bg_color_eq: "label_bg_color res = fst (beam_color_width res)"
  by (simp add: label_bg_color_def beam_color_width_def split: option.splits)

lemma beam_step_traces:
  assumes "map_of all_nodes (e_start el) = Some s" and "map_of all_nodes (e_end el) = Some t"
  shows "\<exists>ts. traces (fst (beam_step vs cf all_nodes sim el (f, ls)))
               = traces f @ beam_line s t el (sim (e_id el))
                              (legend_group_name (sim (e_id el)) \<notin> ls) # ts
            \<and> list_all quiet ts"
proof -
  define T where "T = beam_line s t el (sim (e_id el)) (legend_group_name (sim (e_id el)) \<notin> ls)"
  define g where "g = (case sim (e_id el) of
                          None \<Rightarrow> add_trace T f
                        | Some beam_result \<Rightarrow>
                            if \<bar>er_force beam_result\<bar> > 0.1
                            then draw_internal_force vs cf (n_x s) (n_y s) (n_x t) (n_y t)
                                   (er_force beam_result) (add_trace T f)
                            else add_trace T f)"
  have step: "fst (beam_step vs cf all_nodes sim el (f, ls)) = g"
    unfolding g_def T_def by (simp add: beam_step_def assms Let_def)
  have "ext (add_trace T f) g"
    by (simp add: g_def ext_draw_internal_force split: option.splits)
  then obtain ts where "traces g = traces f @ T # ts" "list_all quiet ts"
    by (auto simp: ext_def)
  then show ?thesis unfolding step T_def by blast
qed

lemma legend_step_mono:
  assumes "legend_step k st st'"
  shows "set (traces (fst st)) \<subseteq> set (traces (fst st'))"
proof (cases k)
  case None
  with assms show ?thesis by (auto simp: legend_step_def ext_def)
next
  case (Some N)
  with assms show ?thesis by (auto simp: legend_step_def ext_def)
qed

lemma legend_fold_mono:
  assumes step: "\<And>x st. legend_step (key x) st (step x st)"
  shows "set (traces (fst st)) \<subseteq> set (traces (fst (fold step xs st)))"
proof (induction xs arbitrary: st)
  case Nil
  show ?case by simp
next
  case (Cons x xs)
  have "set (traces (fst st)) \<subseteq> set (traces (fst (step x st)))"
    using legend_step_mono[OF step] .
  also have "\<dots> \<subseteq> set (traces (fst (fold step xs (step x st))))" by (rule Cons.IH)
  finally show ?case by simp
qed

lemma beam_fold_line:
  assumes "el \<in> set es"
    and "map_of all_nodes (e_start el) = Some s" and "map_of all_nodes (e_end el) = Some t"
  shows "\<exists>b. beam_line s t el (sim (e_id el)) b
               \<in> set (traces (fst (fold (beam_step vs cf all_nodes sim) es st)))"
  using assms(1)
proof (induction es arbitrary: st)
  case Nil
  then show ?case by simp
next
  case (Cons x xs)
  show ?case
  proof (cases "x = el")
    case True
    obtain f ls where st: "st = (f, ls)" by (cases st)
    from beam_step_traces[OF assms(2,3), of vs cf sim f ls] obtain ts where
      "traces (fst (beam_step vs cf all_nodes sim el st))
         = traces f @ beam_line s t el (sim (e_id el))
                        (legend_group_name (sim (e_id el)) \<notin> ls) # ts"
      unfolding st by blast
    then have "beam_line s t el (sim (e_id el)) (legend_group_name (sim (e_id el)) \<notin> ls)
                 \<in> set (traces (fst (beam_step vs cf all_nodes sim el st)))"
      by simp
    then obtain b where
      "beam_line s t el (sim (e_id el)) b \<in> set (traces (fst (beam_step vs cf all_nodes sim el st)))"
      by blast
    moreover have "set (traces (fst (beam_step vs cf all_nodes sim el st)))
        \<subseteq> set (traces (fst (fold (beam_step vs cf all_nodes sim) xs
                                 (beam_step vs cf all_nodes sim el st))))"
      by (rule legend_fold_mono[of "beam_key all_nodes sim", OF beam_step_legend_step])
    ultimately show ?thesis using True by auto
  next
    case False
    with Cons.prems have "el \<in> set xs" by simp
    from Cons.IH[OF this] show ?thesis by simp
  qed
qed

lemma beam_label_step_annotations:
  assumes "map_of all_nodes (e_start el) = Some s" and "map_of all_nodes (e_end el) = Some t"
  shows "annotations (beam_label_step cf all_nodes sim el g)
           = annotations g @ [beam_label cf s t el (sim (e_id el))]"
  by (simp add: beam_label_step_def assms)

lemma beam_label_fold_mono:
  "set (annotations g) \<subseteq> set (annotations (fold (beam_label_step cf all_nodes sim) es g))"
proof (induction es arbitrary: g)
  case Nil
  show ?case by simp
next
  case (Cons x xs)
  have "set (annotations g) \<subseteq> set (annotations (beam_label_step cf all_nodes sim x g))"
    by (auto simp: beam_label_step_def split: option.splits)
  also have "\<dots> \<subseteq> set (annotations (fold (beam_label_step cf all_nodes sim) xs
                                         (beam_label_step cf all_nodes sim x g)))"
    by (rule Cons.IH)
  finally show ?case by simp
qed

lemma beam_label_fold_badge:
  assumes "el \<in> set es"
    and "map_of all_nodes (e_start el) = Some s" and "map_of all_nodes (e_end el) = Some t"
  shows "beam_label cf s t el (sim (e_id el))
           \<in> set (annotations (fold (beam_label_step cf all_nodes sim) es g))"
  using assms(1)
proof (induction es arbitrary: g)
  case Nil
  then show ?case by simp
next
  case (Cons x xs)
  show ?case
  proof (cases "x = el")
    case True
    have "beam_label cf s t el (sim (e_id el))
            \<in> set (annotations (beam_label_step cf all_nodes sim el g))"
      by (simp add: beam_label_step_annotations[OF assms(2,3)])
    with beam_label_fold_mono[of "beam_label_step cf all_nodes sim el g" cf all_nodes sim xs]
    show ?thesis using True by auto
  next
    case False
    with Cons.prems have "el \<in> set xs" by simp
    from Cons.IH[OF this] show ?thesis by simp
  qed
qed

lemma draw_layers_line_badge:
  assumes "el \<in> set es"
    and "map_of all_nodes (e_start el) = Some s" and "map_of all_nodes (e_end el) = Some t"
  shows "(\<exists>b. beam_line s t el (sim (e_id el)) b \<in> set (traces (draw_layers vs cf all_nodes es sim nr)))
       \<and> beam_label cf s t el (sim (e_id el)) \<in> set (annotations (draw_layers vs cf all_nodes es sim nr))"
proof -
  from draw_layers_traces[of vs cf all_nodes sim es nr] obtain f1 ls f3 sl where
    1: "fold (beam_step vs cf all_nodes sim) es (\<lparr>traces = [], annotations = []\<rparr>, {}) = (f1, ls)"
    and 2: "fold (node_step vs cf nr) all_nodes
         (fold add_trace (map legend_entry force_legend) f1, {}) = (f3, sl)"
    and 3: "traces (draw_layers vs cf all_nodes es sim nr) = traces f3 @ [joints_trace vs all_nodes]"
    by blast
  from beam_fold_line[OF assms, of sim vs cf "(\<lparr>traces = [], annotations = []\<rparr>, {})"]
  obtain b where b: "beam_line s t el (sim (e_id el)) b \<in> set (traces f1)"
    unfolding 1 by auto
  have "set (traces (fst (fold add_trace (map legend_entry force_legend) f1, {}::string set)))
          \<subseteq> set (traces (fst (fold (node_step vs cf nr) all_nodes
                 (fold add_trace (map legend_entry force_legend) f1, {}))))"
    by (rule legend_fold_mono[of support_key, OF node_step_legend_step])
  then have "set (traces f1) \<subseteq> set (traces f3)" unfolding 2 by auto
  with b 3 have A: "beam_line s t el (sim (e_id el)) b
                     \<in> set (traces (draw_layers vs cf all_nodes es sim nr))"
    by auto
  have B: "beam_label cf s t el (sim (e_id el))
            \<in> set (annotations (draw_layers vs cf all_nodes es sim nr))"
    unfolding draw_layers_def Let_def
    by (simp add: beam_label_fold_badge[OF assms] split: prod.splits)
  from A B show ?thesis by blast
qed

text \<open>
  C1. In a figure that \<open>draw_bridge\<close> returns, every member whose two joints exist is
  drawn with the colour, line width and legend name of its class, and the class depends on
  the member's own result only through the safety factor: no result gives Draft
  (\<open>#3b82f6\<close>, width 4); a safety factor below 1 gives Unsafe (\<open>#ef4444\<close>, width 6); from
  1 inclusive to 2 exclusive Caution (\<open>#f59e0b\<close>, width 5); from 2 on Safe (\<open>#10b981\<close>,
  width 6). The member's line between its joints, with that colour, width and name, is
  among the traces of the figure, and the member's badge \<open>#id\<close> at the midpoint, with the
  same colour as background, is among its annotations. The line is the first trace that
  the member's turn of the beam loop adds, and the badge is the one annotation that its
  turn of the label loop adds.
\<close>

theorem safety_classification:
  assumes "draw_bridge (Parsed bd) out = Inr (Figure f h)"
    and "el \<in> set (all_elements_of bd)"
    and "map_of (all_nodes_of bd) (e_start el) = Some node_start"
    and "map_of (all_nodes_of bd) (e_end el) = Some node_end"
  shows "\<exists>color width name.
      (simulation_results_of out (e_id el) = None \<longrightarrow>
         color = ''#3b82f6'' \<and> width = 4 \<and> name = ''Beam (Draft)'')
    \<and> (\<forall>r. simulation_results_of out (e_id el) = Some r \<and> er_safety r < 1 \<longrightarrow>
         color = ''#ef4444'' \<and> width = 6 \<and> name = ''Beam (Unsafe)'')
    \<and> (\<forall>r. simulation_results_of out (e_id el) = Some r \<and> 1 \<le> er_safety r \<and> er_safety r < 2 \<longrightarrow>
         color = ''#f59e0b'' \<and> width = 5 \<and> name = ''Beam (Caution)'')
    \<and> (\<forall>r. simulation_results_of out (e_id el) = Some r \<and> 2 \<le> er_safety r \<longrightarrow>
         color = ''#10b981'' \<and> width = 6 \<and> name = ''Beam (Safe)'')
    \<and> (let line = (\<lambda>b. \<lparr>tr_x = [Val (n_x node_start), Val (n_x node_end), Gap],
                           tr_y = [Val (n_y node_start), Val (n_y node_end), Gap],
                           tr_style = Line color width, tr_name = Some name,
                           tr_legendgroup = Some name, tr_showlegend = Some b,
                           tr_hover = [hover_text el (simulation_results_of out (e_id el))]\<rparr>);
             badge = (\<lambda>cf. \<lparr>an_x = (n_x node_start + n_x node_end) / 2,
                             an_y = (n_y node_start + n_y node_end) / 2,
                             an_text = [Lit ''#'', IntStr (e_id el)], an_bgcolor = color,
                             an_font_size = min 10 (8 + 2 * cf), an_yshift = 0\<rparr>)
         in (\<exists>b. line b \<in> set (traces f))
          \<and> badge (complexity_factor (all_elements_of bd)) \<in> set (annotations f)
          \<and> (\<forall>vs cf g ls. \<exists>ts.
                traces (fst (beam_step vs cf (all_nodes_of bd) (simulation_results_of out) el (g, ls)))
                  = traces g @ line (name \<notin> ls) # ts \<and> list_all quiet ts)
          \<and> (\<forall>cf g.
                annotations (beam_label_step cf (all_nodes_of bd) (simulation_results_of out) el g)
                  = annotations g @ [badge cf]))"
proof -
  define res where "res = simulation_results_of out (e_id el)"
  define color where "color = fst (beam_color_width res)"
  define width where "width = snd (beam_color_width res)"
  define name where "name = legend_group_name res"
  have L: "\<lparr>tr_x = [Val (n_x node_start), Val (n_x node_end), Gap],
            tr_y = [Val (n_y node_start), Val (n_y node_end), Gap],
            tr_style = Line color width, tr_name = Some name,
            tr_legendgroup = Some name, tr_showlegend = Some b,
            tr_hover = [hover_text el res]\<rparr> = beam_line node_start node_end el res b" for b
    by (simp add: beam_line_def color_def width_def name_def split: prod.splits)
  have B: "\<lparr>an_x = (n_x node_start + n_x node_end) / 2,
            an_y = (n_y node_start + n_y node_end) / 2,
            an_text = [Lit ''#'', IntStr (e_id el)], an_bgcolor = color,
            an_font_size = min 10 (8 + 2 * cf), an_yshift = 0\<rparr>
           = beam_label cf node_start node_end el res" for cf
    by (simp add: beam_label_def color_def label_bg_color_eq)
  have c0: "res = None \<longrightarrow> color = ''#3b82f6'' \<and> width = 4 \<and> name = ''Beam (Draft)''"
    by (simp add: color_def width_def name_def beam_color_width_def legend_group_name_def)
  have c1: "\<forall>r. res = Some r \<and> er_safety r < 1 \<longrightarrow>
         color = ''#ef4444'' \<and> width = 6 \<and> name = ''Beam (Unsafe)''"
    by (simp add: color_def width_def name_def beam_color_width_def legend_group_name_def)
  have c2: "\<forall>r. res = Some r \<and> 1 \<le> er_safety r \<and> er_safety r < 2 \<longrightarrow>
         color = ''#f59e0b'' \<and> width = 5 \<and> name = ''Beam (Caution)''"
    by (auto simp: color_def width_def name_def beam_color_width_def legend_group_name_def)
  have c3: "\<forall>r. res = Some r \<and> 2 \<le> er_safety r \<longrightarrow>
         color = ''#10b981'' \<and> width = 6 \<and> name = ''Beam (Safe)''"
    by (auto simp: color_def width_def name_def beam_color_width_def legend_group_name_def)
  from draw_bridge_Figure[OF assms(1)] obtain vs where
    f: "f = draw_layers vs (complexity_factor (all_elements_of bd)) (all_nodes_of bd)
               (all_elements_of bd) (simulation_results_of out) (node_results_of out)"
    by auto
  from draw_layers_line_badge[OF assms(2,3,4), of "simulation_results_of out" vs
      "complexity_factor (all_elements_of bd)" "node_results_of out"]
  have m1: "\<exists>b. beam_line node_start node_end el res b \<in> set (traces f)"
    and m2: "beam_label (complexity_factor (all_elements_of bd)) node_start node_end el res
              \<in> set (annotations f)"
    unfolding f res_def by blast+
  have s1: "\<forall>vs cf g ls. \<exists>ts.
                traces (fst (beam_step vs cf (all_nodes_of bd) (simulation_results_of out) el (g, ls)))
                  = traces g @ beam_line node_start node_end el res (name \<notin> ls) # ts
                \<and> list_all quiet ts"
    unfolding res_def name_def using beam_step_traces[OF assms(3,4)] by blast
  have s2: "\<forall>cf g.
                annotations (beam_label_step cf (all_nodes_of bd) (simulation_results_of out) el g)
                  = annotations g @ [beam_label cf node_start node_end el res]"
    unfolding res_def using beam_label_step_annotations[OF assms(3,4)] by blast
  show ?thesis
    apply (rule exI[of _ color], rule exI[of _ width], rule exI[of _ name])
    unfolding Let_def res_def[symmetric] L B
    using c0 c1 c2 c3 m1 m2 s1 s2 by (intro conjI)
qed

lemma simulation_boundary:
  "simulation_results_of (Parsed boundary_results) =
     [1 \<mapsto> \<lparr>er_id = 1, er_force = 25000, er_safety = 1\<rparr>,
      2 \<mapsto> \<lparr>er_id = 2, er_force = 25000, er_safety = 2\<rparr>,
      3 \<mapsto> \<lparr>er_id = 3, er_force = - 35355, er_safety = 999/1000\<rparr>,
      5 \<mapsto> \<lparr>er_id = 5, er_force = - 35355, er_safety = 1999/1000\<rparr>]"
  by (simp add: simulation_results_of_def boundary_results_def get_list_def)

theorem safety_classification_witness:
  "\<exists>f h. draw_bridge (Parsed truss_model) (Parsed boundary_results) = Inr (Figure f h)
     \<and> \<lparr>an_x = 2, an_y = 0, an_text = [Lit ''#'', IntStr 1], an_bgcolor = ''#f59e0b'',
         an_font_size = 10, an_yshift = 0\<rparr> \<in> set (annotations f)
     \<and> \<lparr>an_x = 6, an_y = 0, an_text = [Lit ''#'', IntStr 2], an_bgcolor = ''#10b981'',
         an_font_size = 10, an_yshift = 0\<rparr> \<in> set (annotations f)
     \<and> \<lparr>an_x = 2, an_y = 2, an_text = [Lit ''#'', IntStr 3], an_bgcolor = ''#ef4444'',
         an_font_size = 10, an_yshift = 0\<rparr> \<in> set (annotations f)
     \<and> \<lparr>an_x = 4, an_y = 2, an_text = [Lit ''#'', IntStr 4], an_bgcolor = ''#3b82f6'',
         an_font_size = 10, an_yshift = 0\<rparr> \<in> set (annotations f)"
proof -
  from draw_bridge_truss obtain f h where
    d: "draw_bridge (Parsed truss_model) (Parsed boundary_results) = Inr (Figure f h)" by blast
  have b1: "\<lparr>an_x = 2, an_y = 0, an_text = [Lit ''#'', IntStr 1], an_bgcolor = ''#f59e0b'',
         an_font_size = 10, an_yshift = 0\<rparr> \<in> set (annotations f)"
    using safety_classification[OF d, where el = "\<lparr>e_id = 1, e_start = 1, e_end = 2\<rparr>"
        and node_start = "\<lparr>n_id = 1, n_x = 0, n_y = 0, n_type = Some ''Pinned Support'', n_loadX = Some 0, n_loadY = Some 0\<rparr>"
        and node_end = "\<lparr>n_id = 2, n_x = 4, n_y = 0, n_type = Some ''Free Joint'', n_loadX = Some 0, n_loadY = Some (- 50000)\<rparr>"]
    by (simp add: Let_def all_elements_truss all_nodes_truss simulation_boundary
          complexity_factor_def)
  have b2: "\<lparr>an_x = 6, an_y = 0, an_text = [Lit ''#'', IntStr 2], an_bgcolor = ''#10b981'',
         an_font_size = 10, an_yshift = 0\<rparr> \<in> set (annotations f)"
    using safety_classification[OF d, where el = "\<lparr>e_id = 2, e_start = 2, e_end = 3\<rparr>"
        and node_start = "\<lparr>n_id = 2, n_x = 4, n_y = 0, n_type = Some ''Free Joint'', n_loadX = Some 0, n_loadY = Some (- 50000)\<rparr>"
        and node_end = "\<lparr>n_id = 3, n_x = 8, n_y = 0, n_type = Some ''Roller Support'', n_loadX = Some 0, n_loadY = Some 0\<rparr>"]
    by (simp add: Let_def all_elements_truss all_nodes_truss simulation_boundary
          complexity_factor_def)
  have b3: "\<lparr>an_x = 2, an_y = 2, an_text = [Lit ''#'', IntStr 3], an_bgcolor = ''#ef4444'',
         an_font_size = 10, an_yshift = 0\<rparr> \<in> set (annotations f)"
    using safety_classification[OF d, where el = "\<lparr>e_id = 3, e_start = 1, e_end = 4\<rparr>"
        and node_start = "\<lparr>n_id = 1, n_x = 0, n_y = 0, n_type = Some ''Pinned Support'', n_loadX = Some 0, n_loadY = Some 0\<rparr>"
        and node_end = "\<lparr>n_id = 4, n_x = 4, n_y = 4, n_type = Some ''Free Joint'', n_loadX = Some 0, n_loadY = Some 0\<rparr>"]
    by (simp add: Let_def all_elements_truss all_nodes_truss simulation_boundary
          complexity_factor_def)
  have b4: "\<lparr>an_x = 4, an_y = 2, an_text = [Lit ''#'', IntStr 4], an_bgcolor = ''#3b82f6'',
         an_font_size = 10, an_yshift = 0\<rparr> \<in> set (annotations f)"
    using safety_classification[OF d, where el = "\<lparr>e_id = 4, e_start = 2, e_end = 4\<rparr>"
        and node_start = "\<lparr>n_id = 2, n_x = 4, n_y = 0, n_type = Some ''Free Joint'', n_loadX = Some 0, n_loadY = Some (- 50000)\<rparr>"
        and node_end = "\<lparr>n_id = 4, n_x = 4, n_y = 4, n_type = Some ''Free Joint'', n_loadX = Some 0, n_loadY = Some 0\<rparr>"]
    by (simp add: Let_def all_elements_truss all_nodes_truss simulation_boundary
          complexity_factor_def)
  from d b1 b2 b3 b4 show ?thesis by (intro exI conjI)
qed

subsection \<open>Internal-force arrows\<close>


















end
